theory Spec2Isabelle
  imports Complex_Main "HOL-Library.Word"
begin

section \<open>Machine types\<close>

text \<open>
  Go's \<open>uint64\<close>, \<open>uint32\<close>, \<open>uint8\<close> and \<open>byte\<close> are words of their width. Go's \<open>int\<close> and
  \<open>int64\<close> are 64-bit words read in two's complement (\<open>sint\<close>, \<open><s\<close>); arithmetic wraps, and
  the conversions \<open>uint64(x)\<close> and \<open>int64(x)\<close> between the two keep the bits, so they are the
  identity here. \<open>bitcoin.Script\<close> is a byte slice.
\<close>

type_synonym u64 = "64 word"
type_synonym u32 = "32 word"
type_synonym gint = "64 word"
type_synonym Script = "8 word list"

section \<open>Errors\<close>

text \<open>
  The sentinel errors of the packages, an error of an external library (\<open>ErrExternal\<close>), and
  \<open>errors.Wrap\<close>, which keeps the wrapped error as the cause and adds a message.
\<close>

datatype error =
    ErrInsufficientValue
  | ErrChangeAddressNeeded
  | ErrUnknownScriptTemplate
  | ErrWrongScriptTemplate
  | MissingUnlockingData
  | ErrInvalidMessage
  | ErrUnsupportedVersion
  | ErrExternal string
  | Wrap error string

fun Cause :: "error \<Rightarrow> error" where
  "Cause (Wrap e msg) = Cause e"
| "Cause e = e"

text \<open>\<open>fmt.Sprintf("%d", n)\<close>: the decimal digits of an integer.\<close>

fun decimal :: "nat \<Rightarrow> string" where
  "decimal n =
     (if n < 10 then [''0123456789'' ! n]
      else decimal (n div 10) @ [''0123456789'' ! (n mod 10)])"

declare decimal.simps [simp del]

definition Sprintf_d :: "int \<Rightarrow> string" where
  "Sprintf_d i = (if i < 0 then CHR ''-'' # decimal (nat (- i)) else decimal (nat i))"

section \<open>float64 arithmetic\<close>

text \<open>
  The fee functions compute in IEEE 754 binary64. \<open>Finite neg m e\<close> stands for the number
  \<open>(if neg then -1 else 1) * m * 2 ^ e\<close>; several pairs \<open>(m, e)\<close> stand for the same number.
  An operation computes its exact result and rounds it to the nearest float64, ties to
  even: with the exact result \<open>n * 2 ^ e\<close>, the float64 numbers around it are the multiples
  of \<open>2 ^ (e + k)\<close> for \<open>k = max (- 1074 - e) (bitLen n - 53)\<close> (53 significant bits, and
  nothing finer than the subnormal step \<open>2 ^ - 1074\<close>), and a rounded magnitude of \<open>2 ^ 1024\<close>
  or more is an infinity.
\<close>

datatype float64 = Finite bool nat int | Infinity bool | NaN

fun bitLen :: "nat \<Rightarrow> nat" where
  "bitLen n = (if n = 0 then 0 else Suc (bitLen (n div 2)))"

declare bitLen.simps [simp del]

definition roundHalfEven :: "nat \<Rightarrow> nat \<Rightarrow> nat" where
  "roundHalfEven n k =
     (let q = n div 2 ^ k; r = n mod 2 ^ k
      in if 2 ^ k < 2 * r \<or> (2 * r = 2 ^ k \<and> odd q) then q + 1 else q)"

definition roundNat :: "nat \<Rightarrow> nat \<Rightarrow> nat" where
  "roundNat c n = (let k = max c (bitLen n - 53) in roundHalfEven n k * 2 ^ k)"

definition f64_round :: "bool \<Rightarrow> nat \<Rightarrow> int \<Rightarrow> float64" where
  "f64_round neg n e =
     (let r = roundNat (nat (- 1074 - e)) n
      in if 1024 < int (bitLen r) + e then Infinity neg else Finite neg r e)"

text \<open>The conversions \<open>float64(x)\<close> of a \<open>uint64\<close> and of an \<open>int\<close>.\<close>

definition float64_of_uint64 :: "u64 \<Rightarrow> float64" where
  "float64_of_uint64 x = f64_round False (unat x) 0"

definition float64_of_int :: "gint \<Rightarrow> float64" where
  "float64_of_int x = f64_round (x <s 0) (nat \<bar>sint x\<bar>) 0"

text \<open>The product \<open>x * y\<close>.\<close>

fun f64_mul :: "float64 \<Rightarrow> float64 \<Rightarrow> float64" where
  "f64_mul (Finite s1 m1 e1) (Finite s2 m2 e2) = f64_round (s1 \<noteq> s2) (m1 * m2) (e1 + e2)"
| "f64_mul (Finite s1 m1 e1) (Infinity s2) = (if m1 = 0 then NaN else Infinity (s1 \<noteq> s2))"
| "f64_mul (Infinity s1) (Finite s2 m2 e2) = (if m2 = 0 then NaN else Infinity (s1 \<noteq> s2))"
| "f64_mul (Infinity s1) (Infinity s2) = Infinity (s1 \<noteq> s2)"
| "f64_mul NaN y = NaN"
| "f64_mul x NaN = NaN"

fun math_Ceil :: "float64 \<Rightarrow> float64" where
  "math_Ceil (Finite s m e) =
     (if 0 \<le> e then Finite s m e
      else if s then Finite True (m div 2 ^ nat (- e)) 0
      else Finite False ((m + 2 ^ nat (- e) - 1) div 2 ^ nat (- e)) 0)"
| "math_Ceil x = x"

fun math_Floor :: "float64 \<Rightarrow> float64" where
  "math_Floor (Finite s m e) =
     (if 0 \<le> e then Finite s m e
      else if s then Finite True ((m + 2 ^ nat (- e) - 1) div 2 ^ nat (- e)) 0
      else Finite False (m div 2 ^ nat (- e)) 0)"
| "math_Floor x = x"

text \<open>
  The conversion \<open>uint64(x)\<close> of a float64 discards the fraction. Where the truncated value
  is not a \<open>uint64\<close> (it is negative, \<open>2 ^ 64\<close> or more, an infinity or a NaN), Go leaves
  the result to the implementation: \<open>oor\<close> is that implementation's result.
\<close>

fun uint64_of_float64 :: "(float64 \<Rightarrow> u64) \<Rightarrow> float64 \<Rightarrow> u64" where
  "uint64_of_float64 oor (Finite s m e) =
     (let t = (if 0 \<le> e then m * 2 ^ nat e else m div 2 ^ nat (- e))
      in if t = 0 then 0
         else if \<not> s \<and> t < 2 ^ 64 then word_of_nat t
         else oor (Finite s m e))"
| "uint64_of_float64 oor x = oor x"

text \<open>The real number a float64 stands for (0 for the infinities and NaN).\<close>

definition float64_value :: "float64 \<Rightarrow> real" where
  "float64_value x =
     (case x of
        Finite s m e \<Rightarrow>
          (if s then - 1 else 1) * (if 0 \<le> e then real m * 2 ^ nat e else real m / 2 ^ nat (- e))
      | _ \<Rightarrow> 0)"

section \<open>Fee arithmetic\<close>

text \<open>\<open>txbuilder.EstimatedFeeValue\<close>, \<open>txbuilder.EstimatedFeeValueDown\<close>, \<open>fees.EstimateFeeValue\<close>.\<close>

definition EstimatedFeeValue :: "(float64 \<Rightarrow> u64) \<Rightarrow> u64 \<Rightarrow> float64 \<Rightarrow> u64" where
  "EstimatedFeeValue oor sz feeRate =
     uint64_of_float64 oor (math_Ceil (f64_mul (float64_of_uint64 sz) feeRate))"

definition EstimatedFeeValueDown :: "(float64 \<Rightarrow> u64) \<Rightarrow> u64 \<Rightarrow> float64 \<Rightarrow> u64" where
  "EstimatedFeeValueDown oor sz feeRate =
     uint64_of_float64 oor (math_Floor (f64_mul (float64_of_uint64 sz) feeRate))"

definition EstimateFeeValue :: "(float64 \<Rightarrow> u64) \<Rightarrow> gint \<Rightarrow> float64 \<Rightarrow> u64" where
  "EstimateFeeValue oor sz feeRate =
     uint64_of_float64 oor (math_Ceil (f64_mul (float64_of_int sz) feeRate))"

text \<open>
  The product that \<open>EstimatedFeeValue\<close> computes is in range when it is finite, not
  negative, and its ceiling is a \<open>uint64\<close>.
\<close>

definition feeInRange :: "u64 \<Rightarrow> float64 \<Rightarrow> bool" where
  "feeInRange sz feeRate =
     (case math_Ceil (f64_mul (float64_of_uint64 sz) feeRate) of
        Finite s m e \<Rightarrow> \<not> s \<and> (if 0 \<le> e then m * 2 ^ nat e else m div 2 ^ nat (- e)) < 2 ^ 64
      | _ \<Rightarrow> False)"

text \<open>
  The rounded product, its ceiling and its floor as natural numbers (the product in units
  of \<open>2 ^ e\<close>), for a rate \<open>Finite False m e\<close>.
\<close>

definition prodNat :: "nat \<Rightarrow> int \<Rightarrow> u64 \<Rightarrow> nat" where
  "prodNat m e sz = roundNat (nat (- 1074 - e)) (roundNat 0 (unat sz) * m)"

definition ceilNat :: "nat \<Rightarrow> int \<Rightarrow> nat" where
  "ceilNat r e = (if 0 \<le> e then r * 2 ^ nat e else (r + 2 ^ nat (- e) - 1) div 2 ^ nat (- e))"

definition floorNat :: "nat \<Rightarrow> int \<Rightarrow> nat" where
  "floorNat r e = (if 0 \<le> e then r * 2 ^ nat e else r div 2 ^ nat (- e))"

text \<open>A sample implementation's result for the conversions Go leaves open.\<close>

definition sampleOutOfRange :: "float64 \<Rightarrow> u64" where
  "sampleOutOfRange x = 9223372036854775808"

section \<open>The declaration codecs (packages unlocking\_data and unlocking\_size)\<close>

text \<open>
  \<open>envelope.Data\<close> holds the protocol IDs and the payload's script items. The script items
  and the four script-number functions of package \<open>bitcoin\<close> belong to an external library:
  the item type is a type parameter and the functions are the fields of \<open>NumberCodec\<close>.
\<close>

type_synonym ProtocolID = string

record 'i Data =
  ProtocolIDs :: "ProtocolID list"
  Payload :: "'i list"

record 'i NumberCodec =
  PushNumberScriptItem :: "gint \<Rightarrow> 'i"
  PushNumberScriptItemUnsigned :: "u64 \<Rightarrow> 'i"
  ScriptNumberValue :: "'i \<Rightarrow> error + gint"
  ScriptNumberValueUnsigned :: "'i \<Rightarrow> error + u64"

record UnlockingSize =
  UnlockingSize :: u64

record UnlockingData =
  Size :: u64
  Value :: u64



definition unlocking_data_ProtocolID :: ProtocolID where
  "unlocking_data_ProtocolID = ''UL''"

definition unlocking_size_ProtocolID :: ProtocolID where
  "unlocking_size_ProtocolID = ''UL_S''"


text \<open>
  \<open>unlocking_data.Parse\<close>: the message (\<open>None\<close> is Go's nil), the payload as the function
  returns it, and the error. \<open>payload\<close> is passed by value, so the function returns its own
  updated copy.
\<close>

definition unlocking_data_Parse ::
  "'i NumberCodec \<Rightarrow> 'i Data \<Rightarrow> UnlockingData option \<times> 'i Data \<times> error option" where
  "unlocking_data_Parse c payload =
     (if length (ProtocolIDs payload) = 0 then (None, payload, None)
      else if ProtocolIDs payload ! 0 \<noteq> unlocking_data_ProtocolID then (None, payload, None)
      else
        let payload = payload\<lparr>ProtocolIDs := drop 1 (ProtocolIDs payload)\<rparr> in
        if length (Payload payload) < 3
        then (None, payload, Some (Wrap ErrInvalidMessage ''3 push datas needed''))
        else
          (case ScriptNumberValue c (Payload payload ! 0) of
             Inl err \<Rightarrow> (None, payload, Some (Wrap err ''version''))
           | Inr version \<Rightarrow>
               if version \<noteq> 0
               then (None, payload, Some (Wrap ErrUnsupportedVersion (Sprintf_d (sint version))))
               else
                 (case ScriptNumberValueUnsigned c (Payload payload ! 1) of
                    Inl err \<Rightarrow> (None, payload, Some (Wrap err ''size script number''))
                  | Inr sz \<Rightarrow>
                      (case ScriptNumberValueUnsigned c (Payload payload ! 2) of
                         Inl err \<Rightarrow> (None, payload, Some (Wrap err ''value script number''))
                       | Inr val \<Rightarrow>
                           (let payload = payload\<lparr>Payload := drop 3 (Payload payload)\<rparr>
                            in (Some \<lparr>Size = sz, Value = val\<rparr>, payload, None))))))"


definition unlocking_size_Parse ::
  "'i NumberCodec \<Rightarrow> 'i Data \<Rightarrow> UnlockingSize option \<times> 'i Data \<times> error option" where
  "unlocking_size_Parse c payload =
     (if length (ProtocolIDs payload) = 0 then (None, payload, None)
      else if ProtocolIDs payload ! 0 \<noteq> unlocking_size_ProtocolID then (None, payload, None)
      else
        let payload = payload\<lparr>ProtocolIDs := drop 1 (ProtocolIDs payload)\<rparr> in
        if length (Payload payload) < 2
        then (None, payload, Some (Wrap ErrInvalidMessage ''2 push datas needed''))
        else
          (case ScriptNumberValue c (Payload payload ! 0) of
             Inl err \<Rightarrow> (None, payload, Some (Wrap err ''version''))
           | Inr version \<Rightarrow>
               if version \<noteq> 0
               then (None, payload, Some (Wrap ErrUnsupportedVersion (Sprintf_d (sint version))))
               else
                 (case ScriptNumberValueUnsigned c (Payload payload ! 1) of
                    Inl err \<Rightarrow> (None, payload, Some (Wrap err ''script number''))
                  | Inr sz \<Rightarrow>
                      (let payload = payload\<lparr>Payload := drop 2 (Payload payload)\<rparr>
                       in (Some \<lparr>UnlockingSize = sz\<rparr>, payload, None)))))"

section \<open>Transactions and the builder\<close>

text \<open>
  \<open>wire.OutPoint\<close>, \<open>wire.TxIn\<close>, \<open>wire.TxOut\<close> and \<open>wire.MsgTx\<close> of the external package
  \<open>wire\<close>. The slices hold pointers in Go; every element is its own object here, so no two
  positions of a slice share one.
\<close>

record OutPoint =
  Hash :: "8 word list"
  Index :: u32

record TxIn =
  PreviousOutPoint :: OutPoint
  UnlockingScript :: Script
  Sequence :: u32

record TxOut =
  Value :: u64
  LockingScript :: Script

record MsgTx =
  Version :: "32 word"
  TxIn :: "TxIn list"
  TxOut :: "TxOut list"
  LockTime :: u32

text \<open>
  Modelled from the spec: the declarations of \<open>InputSupplement\<close>, \<open>OutputSupplement\<close> and
  \<open>TxBuilder\<close> are not under src/. An input carries the spent output's locking script and
  value; an output carries the flags \<open>IsRemainder\<close> and \<open>addedForFee\<close> (the spec's
  \<open>AddedByReconciler\<close>); the builder holds the transaction, the two parallel lists, the change
  script and the rates. The field names are those the functions under src/ read and write.
  \<open>FeeRate\<close> is a \<open>float32\<close> in Go, converted to \<open>float64\<close> exactly wherever it is used.
\<close>

record InputSupplement =
  LockingScript :: Script
  Value :: u64
  KeyID :: string

record OutputSupplement =
  IsRemainder :: bool
  IsDust :: bool
  KeyID :: string
  addedForFee :: bool

record TxBuilder =
  MsgTx :: MsgTx
  Inputs :: "InputSupplement list"
  Outputs :: "OutputSupplement list"
  ChangeScript :: Script
  ChangeKeyID :: string
  FeeRate :: float64
  DustFeeRate :: float64

section \<open>Results\<close>

text \<open>
  A Go function that returns \<open>(value, error)\<close> returns \<open>Ok value\<close> or \<open>Err error\<close>; \<open>Crash\<close> is a
  run-time panic (an index out of range, a nil pointer dereference). \<open>AdjustFee\<close> returns
  its two results and leaves the builder it mutated: \<open>Return done err tx\<close>.
\<close>

datatype 'a res = Crash | Err error | Ok 'a

datatype outcome = Panic | Return bool "error option" TxBuilder

section \<open>The external capabilities\<close>

text \<open>
  What the packages under src/ call in other packages: the script template predicates
  of \<open>bitcoin.Script\<close>, \<open>agent_bitcoin_transfer.MatchScript\<close> (a pointer to the match's
  \<open>Info\<close> and an error), \<open>RemoveHardVerify\<close> and \<open>ApproveUnlockingSize\<close>;
  \<open>Script.IsFalseOpReturn\<close>; \<open>channels.Protocols.Parse\<close> with the unlocking data protocol
  registered (the message, nil being \<open>None\<close>, and the error; of the channels package's
  \<open>UnlockingData\<close> message only \<open>Size\<close> and \<open>Value\<close> are read); \<open>wire.VarIntSerializeSize\<close> and
  \<open>wire.TxOut.SerializeSize\<close>; and the result Go's implementation gives to a float64
  conversion out of range.

  \<open>OutputTotalCost\<close> is a function of package txbuilder whose source is not under src/:
  it is a parameter as well, returning the output fee, the input fee and the error that
  \<open>AdjustFee\<close> ignores. \<open>AddOutputCheck\<close> stands for the validation of \<open>TxBuilder.AddOutput\<close>.
\<close>

record Info =
  AgentLockingScript :: Script

datatype Message = UnlockingDataMessage UnlockingData | OtherMessage

record Env =
  IsP2PK :: "Script \<Rightarrow> bool"
  IsP2PKH :: "Script \<Rightarrow> bool"
  MultiPKHCounts :: "Script \<Rightarrow> error + u32 \<times> u32"
  MatchScript :: "Script \<Rightarrow> Info option \<times> error option"
  RemoveHardVerify :: "Script \<Rightarrow> Script"
  ApproveUnlockingSize :: "gint \<Rightarrow> gint"
  IsFalseOpReturn :: "Script \<Rightarrow> bool"
  ProtocolsParse :: "Script \<Rightarrow> Message option \<times> error option"
  WireVarIntSerializeSize :: "u64 \<Rightarrow> gint"
  SerializeSize :: "TxOut \<Rightarrow> gint"
  OutOfRange :: "float64 \<Rightarrow> u64"
  OutputTotalCost :: "Script \<Rightarrow> float64 \<Rightarrow> u64 \<times> u64 \<times> error option"
  AddOutputCheck :: "TxBuilder \<Rightarrow> Script \<Rightarrow> u64 \<Rightarrow> bool \<Rightarrow> bool \<Rightarrow> error option"

section \<open>Sizes (package txbuilder)\<close>

definition BaseTxSize :: gint where
  "BaseTxSize = 8"

definition PublicKeyHashPushDataSize :: gint where
  "PublicKeyHashPushDataSize = 21"

definition PublicKeyPushDataSize :: gint where
  "PublicKeyPushDataSize = 34"

definition MaxSignatureSize :: gint where
  "MaxSignatureSize = 73"

definition MaxSignaturesPushDataSize :: gint where
  "MaxSignaturesPushDataSize = 1 + MaxSignatureSize"

text \<open>\<open>bitcoin.Hash32Size\<close> is 32.\<close>

definition InputBaseSize :: gint where
  "InputBaseSize = 32 + 4 + 4"

definition MaximumP2PKHSigScriptSize :: gint where
  "MaximumP2PKHSigScriptSize = MaxSignaturesPushDataSize + PublicKeyPushDataSize"

definition MaximumP2PKHInputSize :: gint where
  "MaximumP2PKHInputSize = InputBaseSize + 1 + MaximumP2PKHSigScriptSize"

definition OutputBaseSize :: gint where
  "OutputBaseSize = 8"

definition P2PKHOutputScriptSize :: gint where
  "P2PKHOutputScriptSize = PublicKeyHashPushDataSize + 4"

definition P2PKHOutputSize :: gint where
  "P2PKHOutputSize = OutputBaseSize + 1 + P2PKHOutputScriptSize"

definition VarIntSerializeSize :: "u64 \<Rightarrow> gint" where
  "VarIntSerializeSize val =
     (if val < 253 then 1
      else if val \<le> 65535 then 3
      else if val \<le> 4294967295 then 5
      else 9)"

text \<open>
  \<open>txbuilder.UnlockingScriptSize\<close>. The function calls itself on the agent's locking
  script, which the external matcher supplies: \<open>None\<close> is a recursion that does not return.
\<close>

partial_function (option) UnlockingScriptSize :: "Env \<Rightarrow> Script \<Rightarrow> gint res option" where
  "UnlockingScriptSize env lockingScript =
     (if IsP2PK env lockingScript then Some (Ok MaxSignaturesPushDataSize)
      else if IsP2PKH env lockingScript
      then Some (Ok (MaxSignaturesPushDataSize + PublicKeyPushDataSize))
      else
        case MultiPKHCounts env lockingScript of
          Inr (required, totl) \<Rightarrow>
            (let scriptSize = ucast (totl - required);
                 scriptSize = scriptSize
                   + ucast required * (MaxSignaturesPushDataSize + PublicKeyPushDataSize + 1)
             in Some (Ok scriptSize))
        | Inl _ \<Rightarrow>
            (case MatchScript env lockingScript of
               (Some info, None) \<Rightarrow>
                 (let agentUnlockingScript = RemoveHardVerify env (AgentLockingScript info)
                  in Option.bind (UnlockingScriptSize env agentUnlockingScript)
                       (\<lambda>r. Some (case r of
                          Ok agentUnlockingSize \<Rightarrow> Ok (ApproveUnlockingSize env agentUnlockingSize)
                        | Err err \<Rightarrow> Err (Wrap err ''agent unlocking size'')
                        | Crash \<Rightarrow> Crash)))
             | _ \<Rightarrow> Some (Err ErrUnknownScriptTemplate)))"

declare UnlockingScriptSize.simps [code]

definition InputSize :: "Env \<Rightarrow> Script \<Rightarrow> gint res option" where
  "InputSize env lockingScript =
     Option.bind (UnlockingScriptSize env lockingScript)
       (\<lambda>r. Some (case r of
          Ok scriptSize \<Rightarrow> Ok (InputBaseSize + VarIntSerializeSize scriptSize + scriptSize)
        | Err err \<Rightarrow> Err err
        | Crash \<Rightarrow> Crash))"

definition OutputSize :: "Script \<Rightarrow> gint" where
  "OutputSize lockingScript =
     (let scriptSize = word_of_nat (length lockingScript)
      in OutputBaseSize + VarIntSerializeSize scriptSize + scriptSize)"

section \<open>Sizes and values of a transaction (package txbuilder)\<close>

text \<open>
  One turn of the loop of \<open>EstimatedSize\<close> over \<open>tx.Inputs\<close>: what input \<open>i\<close> adds to the
  result. \<open>tx.MsgTx.TxIn[i]\<close> panics when the transaction has no input \<open>i\<close>.
\<close>

definition EstimatedSize_input ::
  "Env \<Rightarrow> TxBuilder \<Rightarrow> nat \<Rightarrow> InputSupplement \<Rightarrow> gint res option" where
  "EstimatedSize_input env tx i input =
     (let sized =
        Option.bind (InputSize env (InputSupplement.LockingScript input))
          (\<lambda>r. Some (case r of
             Ok sz \<Rightarrow> Ok sz
           | Err err \<Rightarrow> Ok MaximumP2PKHInputSize
           | Crash \<Rightarrow> Crash))
      in
      if length (InputSupplement.LockingScript input) = 0
      then
        if length (TxIn (MsgTx tx)) \<le> i then Some Crash
        else
          let txin = TxIn (MsgTx tx) ! i in
          if IsFalseOpReturn env (UnlockingScript txin)
          then
            case ProtocolsParse env (UnlockingScript txin) of
              (Some (UnlockingDataMessage unlockData), None) \<Rightarrow>
                Some (Ok (InputBaseSize + VarIntSerializeSize (Size unlockData)
                          + Size unlockData))
            | _ \<Rightarrow> sized
          else sized
      else sized)"

fun EstimatedSize_inputs ::
  "Env \<Rightarrow> TxBuilder \<Rightarrow> nat \<Rightarrow> InputSupplement list \<Rightarrow> gint \<Rightarrow> gint res option" where
  "EstimatedSize_inputs env tx i [] result = Some (Ok result)"
| "EstimatedSize_inputs env tx i (input # rest) result =
     (case EstimatedSize_input env tx i input of
        None \<Rightarrow> None
      | Some (Ok sz) \<Rightarrow> EstimatedSize_inputs env tx (Suc i) rest (result + sz)
      | Some (Err err) \<Rightarrow> Some (Err err)
      | Some Crash \<Rightarrow> Some Crash)"

definition EstimatedSize :: "Env \<Rightarrow> TxBuilder \<Rightarrow> gint res option" where
  "EstimatedSize env tx =
     (let result = BaseTxSize
            + WireVarIntSerializeSize env (word_of_nat (length (TxIn (MsgTx tx))))
            + WireVarIntSerializeSize env (word_of_nat (length (TxOut (MsgTx tx))))
      in case EstimatedSize_inputs env tx 0 (Inputs tx) result of
           Some (Ok result) \<Rightarrow>
             Some (Ok (fold (\<lambda>output result. result + SerializeSize env output)
                         (TxOut (MsgTx tx)) result))
         | other \<Rightarrow> other)"

text \<open>\<open>TxBuilder.InputValue\<close>: the loop over \<open>tx.Inputs\<close> from index \<open>i\<close> on.\<close>

fun InputValue_inputs ::
  "Env \<Rightarrow> TxBuilder \<Rightarrow> nat \<Rightarrow> InputSupplement list \<Rightarrow> u64 \<Rightarrow> u64 res" where
  "InputValue_inputs env tx i [] inputValue = Ok inputValue"
| "InputValue_inputs env tx i (input # rest) inputValue =
     (if InputSupplement.Value input = 0
      then
        if length (TxIn (MsgTx tx)) \<le> i then Crash
        else
          let txin = TxIn (MsgTx tx) ! i in
          if IsFalseOpReturn env (UnlockingScript txin)
          then
            case ProtocolsParse env (UnlockingScript txin) of
              (Some (UnlockingDataMessage unlockData), None) \<Rightarrow>
                InputValue_inputs env tx (Suc i) rest (inputValue + UnlockingData.Value unlockData)
            | _ \<Rightarrow>
                InputValue_inputs env tx (Suc i) rest (inputValue + InputSupplement.Value input)
          else InputValue_inputs env tx (Suc i) rest (inputValue + InputSupplement.Value input)
      else InputValue_inputs env tx (Suc i) rest (inputValue + InputSupplement.Value input))"

definition TxBuilder_InputValue :: "Env \<Rightarrow> TxBuilder \<Rightarrow> u64 res" where
  "TxBuilder_InputValue env tx = InputValue_inputs env tx 0 (Inputs tx) 0"

section \<open>The change reconciler (package txbuilder)\<close>

text \<open>
  Modelled from the spec: \<open>TxBuilder.AddOutput\<close> is not under src/. It appends an output
  with the given locking script and value to the transaction and its supplement, with the
  given flags, to \<open>tx.Outputs\<close>; \<open>AdjustFee\<close> handles an error that it returns, so it first
  runs a validation (\<open>AddOutputCheck\<close>, a parameter) and appends nothing when that fails.
\<close>

definition AddOutput ::
  "Env \<Rightarrow> TxBuilder \<Rightarrow> Script \<Rightarrow> u64 \<Rightarrow> bool \<Rightarrow> bool \<Rightarrow> error option \<times> TxBuilder" where
  "AddOutput env tx lockingScript val isRemainder isDust =
     (case AddOutputCheck env tx lockingScript val isRemainder isDust of
        Some err \<Rightarrow> (Some err, tx)
      | None \<Rightarrow>
          (None,
           tx\<lparr>MsgTx := (MsgTx tx)\<lparr>TxOut := TxOut (MsgTx tx)
                  @ [\<lparr>TxOut.Value = val, TxOut.LockingScript = lockingScript\<rparr>]\<rparr>,
              Outputs := Outputs tx
                  @ [\<lparr>IsRemainder = isRemainder, IsDust = isDust, KeyID = [],
                      addedForFee = False\<rparr>]\<rparr>))"

text \<open>
  The search for the change output: the index of the first output with \<open>IsRemainder\<close>, or
  \<open>0xffffffff\<close> when the loop finds none.
\<close>

primrec findChangeOutput :: "nat \<Rightarrow> OutputSupplement list \<Rightarrow> nat" where
  "findChangeOutput i [] = 4294967295"
| "findChangeOutput i (output # rest) =
     (if IsRemainder output then i else findChangeOutput (Suc i) rest)"

text \<open>The branch \<open>amount > 0\<close> of \<open>AdjustFee\<close>: increase the fee, transfer from change.\<close>

definition AdjustFee_increase :: "Env \<Rightarrow> TxBuilder \<Rightarrow> gint \<Rightarrow> nat \<Rightarrow> outcome" where
  "AdjustFee_increase env tx amount changeOutputIndex =
     (if changeOutputIndex = 4294967295
      then Return False (Some (Wrap ErrInsufficientValue ''No existing change for tx fee'')) tx
      else if length (TxOut (MsgTx tx)) \<le> changeOutputIndex then Panic
      else if TxOut.Value (TxOut (MsgTx tx) ! changeOutputIndex) < amount
      then Return False (Some (Wrap ErrInsufficientValue ''Not enough change for tx fee'')) tx
      else
        let change = TxOut (MsgTx tx) ! changeOutputIndex;
            change = change\<lparr>TxOut.Value := TxOut.Value change - amount\<rparr>;
            tx = tx\<lparr>MsgTx := (MsgTx tx)\<lparr>TxOut := (TxOut (MsgTx tx))[changeOutputIndex := change]\<rparr>\<rparr>;
            (outputFee, inputFee, _) =
              OutputTotalCost env (TxOut.LockingScript change) (FeeRate tx)
        in
        if TxOut.Value change < outputFee + inputFee
        then
          if \<not> addedForFee (Outputs tx ! changeOutputIndex)
          then Return False (Some (Wrap ErrInsufficientValue ''Not enough change for tx fee'')) tx
          else
            Return True None
              (tx\<lparr>MsgTx := (MsgTx tx)\<lparr>TxOut := take changeOutputIndex (TxOut (MsgTx tx))
                       @ drop (changeOutputIndex + 1) (TxOut (MsgTx tx))\<rparr>,
                  Outputs := take changeOutputIndex (Outputs tx)
                       @ drop (changeOutputIndex + 1) (Outputs tx)\<rparr>)
        else Return False None tx)"

text \<open>
  The branch \<open>amount < 0\<close> with no change output, once \<open>EstimatedSize\<close> has returned
  \<open>currentSize\<close>.
\<close>

definition AdjustFee_addChange :: "Env \<Rightarrow> TxBuilder \<Rightarrow> gint \<Rightarrow> u64 \<Rightarrow> outcome" where
  "AdjustFee_addChange env tx amount currentSize =
     (let currentFee = EstimatedFeeValue (OutOfRange env) currentSize (FeeRate tx);
          newSize =
            (if length (ChangeScript tx) = 0 then currentSize + P2PKHOutputSize
             else currentSize + OutputSize (ChangeScript tx));
          newFee = EstimatedFeeValue (OutOfRange env) newSize (FeeRate tx);
          changeOutputFee = newFee - currentFee
      in
      if - amount < changeOutputFee then Return True None tx
      else
        let adjustment = - amount - changeOutputFee;
            (outputFee, inputFee) =
              (if length (ChangeScript tx) = 0
               then (EstimatedFeeValue (OutOfRange env) (P2PKHOutputSize * 2) (FeeRate tx),
                     EstimatedFeeValue (OutOfRange env) (MaximumP2PKHInputSize * 2) (FeeRate tx))
               else
                 (let (outputFee, inputFee, _) = OutputTotalCost env (ChangeScript tx) (FeeRate tx)
                  in (outputFee, inputFee)))
        in
        if outputFee + inputFee < adjustment
        then
          if length (ChangeScript tx) = 0
          then Return False
                 (Some (Wrap ErrChangeAddressNeeded (''Remaining: '' @ decimal (unat (- amount)))))
                 tx
          else
            case AddOutput env tx (ChangeScript tx) adjustment True False of
              (Some err, tx) \<Rightarrow> Return False (Some err) tx
            | (None, tx) \<Rightarrow>
                if length (Outputs tx) = 0 then Panic
                else
                  let n = length (Outputs tx) - 1;
                      added = (Outputs tx ! n)\<lparr>KeyID := ChangeKeyID tx, addedForFee := True\<rparr>
                  in Return False None (tx\<lparr>Outputs := (Outputs tx)[n := added]\<rparr>)
        else Return True None tx)"

text \<open>The branch \<open>amount < 0\<close>: decrease the fee, transfer to change.\<close>

definition AdjustFee_decrease :: "Env \<Rightarrow> TxBuilder \<Rightarrow> gint \<Rightarrow> nat \<Rightarrow> outcome option" where
  "AdjustFee_decrease env tx amount changeOutputIndex =
     (if changeOutputIndex = 4294967295
      then
        case EstimatedSize env tx of
          None \<Rightarrow> None
        | Some (Ok currentSize) \<Rightarrow> Some (AdjustFee_addChange env tx amount currentSize)
        | Some _ \<Rightarrow> Some Panic
      else if length (TxOut (MsgTx tx)) \<le> changeOutputIndex then Some Panic
      else
        let change = TxOut (MsgTx tx) ! changeOutputIndex;
            change = change\<lparr>TxOut.Value := TxOut.Value change + (- amount)\<rparr>
        in Some (Return False None
             (tx\<lparr>MsgTx := (MsgTx tx)\<lparr>TxOut := (TxOut (MsgTx tx))[changeOutputIndex := change]\<rparr>\<rparr>)))"

text \<open>
  \<open>TxBuilder.AdjustFee\<close>. \<open>None\<close> is a call that does not return (the size estimation's
  recursion), \<open>Some Panic\<close> a run-time panic.
\<close>

definition AdjustFee :: "Env \<Rightarrow> TxBuilder \<Rightarrow> gint \<Rightarrow> outcome option" where
  "AdjustFee env tx amount =
     (if amount = 0 then Some (Return True None tx)
      else
        let changeOutputIndex = findChangeOutput 0 (Outputs tx) in
        if 0 <s amount then Some (AdjustFee_increase env tx amount changeOutputIndex)
        else AdjustFee_decrease env tx amount changeOutputIndex)"

section \<open>Package fees\<close>

text \<open>
  \<open>fees.EstimateUnlockingSize\<close>. \<open>info.AgentLockingScript\<close> dereferences the pointer that
  \<open>MatchScript\<close> returned: a nil pointer is a panic.
\<close>

partial_function (option) EstimateUnlockingSize :: "Env \<Rightarrow> Script \<Rightarrow> gint res option" where
  "EstimateUnlockingSize env lockingScript =
     (if IsP2PK env lockingScript then Some (Ok MaxSignaturesPushDataSize)
      else if IsP2PKH env lockingScript
      then Some (Ok (MaxSignaturesPushDataSize + PublicKeyPushDataSize))
      else
        case MultiPKHCounts env lockingScript of
          Inr (required, totl) \<Rightarrow>
            Some (Ok (ucast (totl - required)
                      + ucast required * (MaxSignaturesPushDataSize + PublicKeyPushDataSize + 1)))
        | Inl _ \<Rightarrow>
            (case MatchScript env lockingScript of
               (info, Some err) \<Rightarrow>
                 (case info of
                    None \<Rightarrow> Some Crash
                  | Some info \<Rightarrow>
                      Option.bind (EstimateUnlockingSize env (AgentLockingScript info))
                        (\<lambda>r. Some (case r of
                           Ok agentUnlockingSize \<Rightarrow>
                             Ok (ApproveUnlockingSize env agentUnlockingSize)
                         | Err err \<Rightarrow> Err (Wrap err ''agent'')
                         | Crash \<Rightarrow> Crash)))
             | (info, None) \<Rightarrow> Some (Err ErrWrongScriptTemplate)))"

declare EstimateUnlockingSize.simps [code]

text \<open>\<open>fees.InputValue\<close>.\<close>

definition fees_InputValue :: "Env \<Rightarrow> TxIn \<Rightarrow> TxOut \<Rightarrow> u64 res" where
  "fees_InputValue env txin inputOutput =
     (if TxOut.Value inputOutput \<noteq> 0 then Ok (TxOut.Value inputOutput)
      else if \<not> IsFalseOpReturn env (UnlockingScript txin) then Err MissingUnlockingData
      else
        case ProtocolsParse env (UnlockingScript txin) of
          (msg, Some err) \<Rightarrow> Err MissingUnlockingData
        | (Some (UnlockingDataMessage unlockingData), None) \<Rightarrow> Ok (Size unlockingData)
        | (_, None) \<Rightarrow> Err MissingUnlockingData)"

text \<open>
  \<open>fees.InputsValue\<close>, over a transaction that gives the output each input spends
  (\<open>tx.InputOutput\<close>, of the external interface \<open>TransactionWithOutputs\<close>).
\<close>

fun InputsValue_inputs ::
  "Env \<Rightarrow> (nat \<Rightarrow> error + TxOut) \<Rightarrow> nat \<Rightarrow> TxIn list \<Rightarrow> u64 \<Rightarrow> u64 res" where
  "InputsValue_inputs env inputOutput inputIndex [] result = Ok result"
| "InputsValue_inputs env inputOutput inputIndex (txin # rest) result =
     (case inputOutput inputIndex of
        Inl err \<Rightarrow> Err (Wrap err (''input '' @ decimal inputIndex @ '' output''))
      | Inr out \<Rightarrow>
          (case fees_InputValue env txin out of
             Ok inputValue \<Rightarrow>
               InputsValue_inputs env inputOutput (Suc inputIndex) rest (result + inputValue)
           | Err err \<Rightarrow> Err (Wrap err (''input '' @ decimal inputIndex @ '' value''))
           | Crash \<Rightarrow> Crash))"

definition InputsValue :: "Env \<Rightarrow> MsgTx \<Rightarrow> (nat \<Rightarrow> error + TxOut) \<Rightarrow> u64 res" where
  "InputsValue env msgTx inputOutput = InputsValue_inputs env inputOutput 0 (TxIn msgTx) 0"

section \<open>The script numbers of the library\<close>

text \<open>
  Modelled from the spec: the script-number functions of the external package \<open>bitcoin\<close> are
  not under src/. The spec has the version and each field written as a minimally-sized
  integer push; the model is the minimal script-number encoding of Bitcoin, which the
  package implements: \<open>OP_0\<close>, \<open>OP_1\<close> to \<open>OP_16\<close>, \<open>OP_1NEGATE\<close>, or a push of the little-endian
  magnitude whose top bit is the sign (a magnitude with that bit set gets one more byte).
  The decoders of the package accept a push of at most 8 bytes, so the 9 bytes pushed for
  an unsigned value of \<open>2 ^ 63\<close> or more are not a number to them.
\<close>

datatype ScriptItem = OpCode "8 word" | PushData "8 word list"

fun littleEndian :: "nat \<Rightarrow> 8 word list" where
  "littleEndian n = (if n = 0 then [] else word_of_nat (n mod 256) # littleEndian (n div 256))"

declare littleEndian.simps [simp del]

fun fromLittleEndian :: "8 word list \<Rightarrow> nat" where
  "fromLittleEndian [] = 0"
| "fromLittleEndian (b # bs) = unat b + 256 * fromLittleEndian bs"

definition pushMagnitude :: "bool \<Rightarrow> nat \<Rightarrow> ScriptItem" where
  "pushMagnitude negative n =
     (let bs = littleEndian n;
          bs = (if 128 \<le> last bs then bs @ [0] else bs)
      in PushData (if negative then butlast bs @ [last bs + 128] else bs))"

definition samplePushUnsigned :: "u64 \<Rightarrow> ScriptItem" where
  "samplePushUnsigned n =
     (if n = 0 then OpCode 0
      else if n \<le> 16 then OpCode (80 + ucast n)
      else pushMagnitude False (unat n))"

definition samplePush :: "gint \<Rightarrow> ScriptItem" where
  "samplePush n =
     (if n = - 1 then OpCode 79
      else if n <s 0 then pushMagnitude True (nat (- sint n))
      else samplePushUnsigned n)"

definition sampleValue :: "ScriptItem \<Rightarrow> error + gint" where
  "sampleValue item =
     (case item of
        OpCode op \<Rightarrow>
          if op = 0 then Inr 0
          else if op = 79 then Inr (- 1)
          else if 81 \<le> op \<and> op \<le> 96 then Inr (ucast (op - 80))
          else Inl (ErrExternal ''not a number'')
      | PushData bs \<Rightarrow>
          if bs = [] \<or> 8 < length bs then Inl (ErrExternal ''not a number'')
          else if 128 \<le> last bs
          then Inr (- word_of_nat (fromLittleEndian (butlast bs @ [last bs - 128])))
          else Inr (word_of_nat (fromLittleEndian bs)))"

definition sampleValueUnsigned :: "ScriptItem \<Rightarrow> error + u64" where
  "sampleValueUnsigned item =
     (case item of
        OpCode op \<Rightarrow>
          if op = 0 then Inr 0
          else if 81 \<le> op \<and> op \<le> 96 then Inr (ucast (op - 80))
          else Inl (ErrExternal ''not a number'')
      | PushData bs \<Rightarrow>
          if bs = [] \<or> 8 < length bs \<or> 128 \<le> last bs
          then Inl (ErrExternal ''not a number'')
          else Inr (word_of_nat (fromLittleEndian bs)))"

definition sampleCodec :: "ScriptItem NumberCodec" where
  "sampleCodec =
     \<lparr>PushNumberScriptItem = samplePush,
      PushNumberScriptItemUnsigned = samplePushUnsigned,
      ScriptNumberValue = sampleValue,
      ScriptNumberValueUnsigned = sampleValueUnsigned\<rparr>"

section \<open>A sample environment and sample transactions\<close>

text \<open>
  A small implementation of the external capabilities, used to run the model on concrete
  values. It recognises pay-to-public-key-hash scripts by their bytes; for the sake of the
  example an agent transfer script is the byte \<open>0xfe\<close> followed by the agent's locking
  script, removing the hard verification turns a final \<open>OP_CHECKSIGVERIFY\<close> into
  \<open>OP_CHECKSIG\<close>, the approval adds one byte, and a placeholder unlocking script is
  \<open>OP_FALSE OP_RETURN 'U' 'L'\<close> followed by one byte for the size and one for the value.
\<close>

definition p2pkh :: "8 word \<Rightarrow> Script" where
  "p2pkh b = [118, 169, 20] @ replicate 20 b @ [136, 172]"

definition sampleMatchScript :: "Script \<Rightarrow> Info option \<times> error option" where
  "sampleMatchScript s =
     (if s \<noteq> [] \<and> hd s = 254 then (Some \<lparr>AgentLockingScript = tl s\<rparr>, None)
      else (None, Some (ErrExternal ''not an agent transfer script'')))"

definition sampleProtocolsParse :: "Script \<Rightarrow> Message option \<times> error option" where
  "sampleProtocolsParse s =
     (if length s = 6 \<and> take 4 s = [0, 106, 85, 76]
      then (Some (UnlockingDataMessage \<lparr>Size = ucast (s ! 4), Value = ucast (s ! 5)\<rparr>), None)
      else (None, Some (ErrExternal ''no protocol'')))"

definition sampleOutputTotalCost :: "Script \<Rightarrow> float64 \<Rightarrow> u64 \<times> u64 \<times> error option" where
  "sampleOutputTotalCost lockingScript feeRate =
     (EstimatedFeeValue sampleOutOfRange (OutputSize lockingScript) feeRate,
      EstimatedFeeValue sampleOutOfRange MaximumP2PKHInputSize feeRate,
      None)"

definition sampleEnv :: Env where
  "sampleEnv =
     \<lparr>IsP2PK = (\<lambda>s. length s = 35 \<and> hd s = 33 \<and> last s = 172),
      IsP2PKH = (\<lambda>s. length s = 25 \<and> take 3 s = [118, 169, 20] \<and> drop 23 s = [136, 172]),
      MultiPKHCounts = (\<lambda>s. Inl (ErrExternal ''not a multi-pkh script'')),
      MatchScript = sampleMatchScript,
      RemoveHardVerify = (\<lambda>s. if s \<noteq> [] \<and> last s = 173 then butlast s @ [172] else s),
      ApproveUnlockingSize = (\<lambda>n. n + 1),
      IsFalseOpReturn = (\<lambda>s. take 2 s = [0, 106]),
      ProtocolsParse = sampleProtocolsParse,
      WireVarIntSerializeSize = VarIntSerializeSize,
      SerializeSize = (\<lambda>out. OutputSize (TxOut.LockingScript out)),
      OutOfRange = sampleOutOfRange,
      OutputTotalCost = sampleOutputTotalCost,
      AddOutputCheck = (\<lambda>tx lockingScript val isRemainder isDust. None)\<rparr>"

text \<open>
  A builder with one known input of value 10000, one payment of 5000 and, in \<open>sampleTx\<close>,
  a change output of the given value; the fee rate \<open>sampleRate\<close> is 0.5.
\<close>

definition sampleRate :: float64 where
  "sampleRate = Finite False 1 (- 1)"

definition sampleInput :: TxIn where
  "sampleInput = \<lparr>PreviousOutPoint = \<lparr>Hash = replicate 32 7, Index = 0\<rparr>,
                  UnlockingScript = [], Sequence = 4294967295\<rparr>"

definition sampleNoChange :: TxBuilder where
  "sampleNoChange =
     \<lparr>MsgTx = \<lparr>Version = 1, TxIn = [sampleInput],
               TxOut = [\<lparr>TxOut.Value = 5000, TxOut.LockingScript = p2pkh 1\<rparr>],
               LockTime = 0\<rparr>,
      Inputs = [\<lparr>InputSupplement.LockingScript = p2pkh 3, InputSupplement.Value = 10000,
                 InputSupplement.KeyID = []\<rparr>],
      Outputs = [\<lparr>IsRemainder = False, IsDust = False, KeyID = [], addedForFee = False\<rparr>],
      ChangeScript = p2pkh 2, ChangeKeyID = ''change'',
      FeeRate = sampleRate, DustFeeRate = Finite False 0 0\<rparr>"

definition sampleTx :: "u64 \<Rightarrow> bool \<Rightarrow> TxBuilder" where
  "sampleTx changeValue added =
     sampleNoChange
       \<lparr>MsgTx := (MsgTx sampleNoChange)
          \<lparr>TxOut := [\<lparr>TxOut.Value = 5000, TxOut.LockingScript = p2pkh 1\<rparr>,
                     \<lparr>TxOut.Value = changeValue, TxOut.LockingScript = p2pkh 2\<rparr>]\<rparr>,
        Outputs := [\<lparr>IsRemainder = False, IsDust = False, KeyID = [], addedForFee = False\<rparr>,
                    \<lparr>IsRemainder = True, IsDust = False, KeyID = ''change'',
                     addedForFee = added\<rparr>]\<rparr>"

section \<open>Theorems\<close>

subsection \<open>Parsing declarations\<close>

text \<open>
  C9. A payload with no protocol ID, or whose first protocol ID is not the codec's, is
  returned unchanged with no message and no error. Under a matching ID, fewer than 3 push
  datas (\<open>UnlockingData\<close>) or fewer than 2 (\<open>UnlockingSize\<close>) give an error whose cause is
  \<open>ErrInvalidMessage\<close>, and enough push datas with a version item that parses to a number
  other than 0 give an error whose cause is \<open>ErrUnsupportedVersion\<close>; both come with no
  message.
\<close>

theorem Parse_no_match_and_errors:
  fixes c :: "'i NumberCodec" and p :: "'i Data"
  shows
    "(ProtocolIDs p = [] \<or> ProtocolIDs p ! 0 \<noteq> unlocking_data_ProtocolID
        \<longrightarrow> unlocking_data_Parse c p = (None, p, None))
     \<and> (ProtocolIDs p = [] \<or> ProtocolIDs p ! 0 \<noteq> unlocking_size_ProtocolID
        \<longrightarrow> unlocking_size_Parse c p = (None, p, None))
     \<and> (ProtocolIDs p \<noteq> [] \<and> ProtocolIDs p ! 0 = unlocking_data_ProtocolID
          \<and> length (Payload p) < 3
        \<longrightarrow> (\<exists>e. unlocking_data_Parse c p
                  = (None, p\<lparr>ProtocolIDs := drop 1 (ProtocolIDs p)\<rparr>, Some e)
                \<and> Cause e = ErrInvalidMessage))
     \<and> (ProtocolIDs p \<noteq> [] \<and> ProtocolIDs p ! 0 = unlocking_size_ProtocolID
          \<and> length (Payload p) < 2
        \<longrightarrow> (\<exists>e. unlocking_size_Parse c p
                  = (None, p\<lparr>ProtocolIDs := drop 1 (ProtocolIDs p)\<rparr>, Some e)
                \<and> Cause e = ErrInvalidMessage))
     \<and> (ProtocolIDs p \<noteq> [] \<and> ProtocolIDs p ! 0 = unlocking_data_ProtocolID
          \<and> 3 \<le> length (Payload p) \<and> ScriptNumberValue c (Payload p ! 0) = Inr v \<and> v \<noteq> 0
        \<longrightarrow> (\<exists>e. unlocking_data_Parse c p
                  = (None, p\<lparr>ProtocolIDs := drop 1 (ProtocolIDs p)\<rparr>, Some e)
                \<and> Cause e = ErrUnsupportedVersion))
     \<and> (ProtocolIDs p \<noteq> [] \<and> ProtocolIDs p ! 0 = unlocking_size_ProtocolID
          \<and> 2 \<le> length (Payload p) \<and> ScriptNumberValue c (Payload p ! 0) = Inr v \<and> v \<noteq> 0
        \<longrightarrow> (\<exists>e. unlocking_size_Parse c p
                  = (None, p\<lparr>ProtocolIDs := drop 1 (ProtocolIDs p)\<rparr>, Some e)
                \<and> Cause e = ErrUnsupportedVersion))"
  by (auto simp: unlocking_data_Parse_def unlocking_size_Parse_def Let_def)

theorem Parse_no_match_and_errors_witness:
  "unlocking_data_Parse sampleCodec \<lparr>ProtocolIDs = [''UL_S''], Payload = [OpCode 0]\<rparr>
     = (None, \<lparr>ProtocolIDs = [''UL_S''], Payload = [OpCode 0]\<rparr>, None)
   \<and> unlocking_size_Parse sampleCodec \<lparr>ProtocolIDs = [], Payload = [OpCode 0]\<rparr>
     = (None, \<lparr>ProtocolIDs = [], Payload = [OpCode 0]\<rparr>, None)
   \<and> (\<exists>e. unlocking_data_Parse sampleCodec
            \<lparr>ProtocolIDs = [''UL''], Payload = [OpCode 0, OpCode 81]\<rparr>
          = (None, \<lparr>ProtocolIDs = [], Payload = [OpCode 0, OpCode 81]\<rparr>, Some e)
        \<and> Cause e = ErrInvalidMessage)
   \<and> (\<exists>e. unlocking_size_Parse sampleCodec
            \<lparr>ProtocolIDs = [''UL_S''], Payload = [OpCode 0]\<rparr>
          = (None, \<lparr>ProtocolIDs = [], Payload = [OpCode 0]\<rparr>, Some e)
        \<and> Cause e = ErrInvalidMessage)
   \<and> (\<exists>e. unlocking_data_Parse sampleCodec
            \<lparr>ProtocolIDs = [''UL''], Payload = [OpCode 81, OpCode 82, OpCode 83]\<rparr>
          = (None, \<lparr>ProtocolIDs = [], Payload = [OpCode 81, OpCode 82, OpCode 83]\<rparr>, Some e)
        \<and> Cause e = ErrUnsupportedVersion)
   \<and> (\<exists>e. unlocking_size_Parse sampleCodec
            \<lparr>ProtocolIDs = [''UL_S''], Payload = [OpCode 81, OpCode 82]\<rparr>
          = (None, \<lparr>ProtocolIDs = [], Payload = [OpCode 81, OpCode 82]\<rparr>, Some e)
        \<and> Cause e = ErrUnsupportedVersion)"
  using
    Parse_no_match_and_errors
      [of "\<lparr>ProtocolIDs = [''UL_S''], Payload = [OpCode 0]\<rparr>" sampleCodec 1]
    Parse_no_match_and_errors
      [of "\<lparr>ProtocolIDs = [], Payload = [OpCode 0]\<rparr>" sampleCodec 1]
    Parse_no_match_and_errors
      [of "\<lparr>ProtocolIDs = [''UL''], Payload = [OpCode 0, OpCode 81]\<rparr>" sampleCodec 1]
    Parse_no_match_and_errors
      [of "\<lparr>ProtocolIDs = [''UL''], Payload = [OpCode 81, OpCode 82, OpCode 83]\<rparr>"
          sampleCodec 1]
    Parse_no_match_and_errors
      [of "\<lparr>ProtocolIDs = [''UL_S''], Payload = [OpCode 81, OpCode 82]\<rparr>" sampleCodec 1]
  by (simp add: unlocking_data_ProtocolID_def unlocking_size_ProtocolID_def sampleCodec_def
      sampleValue_def)

subsection \<open>Round trip of the declarations\<close>

















subsection \<open>Rounding and the fee bounds\<close>

lemma bitLen_0: "bitLen 0 = 0"
  by (simp add: bitLen.simps)

lemma bitLen_pos: "0 < bitLen n \<Longrightarrow> 0 < n"
  by (rule ccontr) (simp add: bitLen_0)

lemma bitLen_upper: "n < 2 ^ bitLen n"
proof (induction n rule: bitLen.induct)
  case (1 n)
  show ?case
  proof (cases "n = 0")
    case True
    then show ?thesis by (simp add: bitLen.simps)
  next
    case False
    with 1 have "n div 2 < 2 ^ bitLen (n div 2)" by simp
    then have "n < 2 * 2 ^ bitLen (n div 2)" by linarith
    with False show ?thesis by (subst bitLen.simps) simp
  qed
qed

lemma bitLen_lower: "0 < n \<Longrightarrow> 2 ^ (bitLen n - 1) \<le> n"
proof (induction n rule: bitLen.induct)
  case (1 n)
  show ?case
  proof (cases "n div 2 = 0")
    case True
    with 1(2) have "n = 1" by linarith
    then show ?thesis by (simp add: bitLen.simps)
  next
    case False
    with 1 have ih: "2 ^ (bitLen (n div 2) - 1) \<le> n div 2" by simp
    from False have pos: "0 < bitLen (n div 2)" by (subst bitLen.simps) simp
    have "bitLen n = Suc (bitLen (n div 2))" using 1(2) by (subst bitLen.simps) simp
    then have "(2::nat) ^ (bitLen n - 1) = 2 * 2 ^ (bitLen (n div 2) - 1)"
      using pos by (cases "bitLen (n div 2)") simp_all
    with ih show ?thesis by linarith
  qed
qed

lemma bitLen_le_iff: "bitLen n \<le> k \<longleftrightarrow> n < 2 ^ k"
proof
  assume "bitLen n \<le> k"
  then have "(2::nat) ^ bitLen n \<le> 2 ^ k" by simp
  with bitLen_upper [of n] show "n < 2 ^ k" by linarith
next
  assume a: "n < 2 ^ k"
  show "bitLen n \<le> k"
  proof (rule ccontr)
    assume "\<not> bitLen n \<le> k"
    then have k: "k \<le> bitLen n - 1" and pos: "0 < bitLen n" by simp_all
    from pos have "0 < n" by (rule bitLen_pos)
    then have "2 ^ (bitLen n - 1) \<le> n" by (rule bitLen_lower)
    moreover from k have "(2::nat) ^ k \<le> 2 ^ (bitLen n - 1)" by simp
    ultimately show False using a by linarith
  qed
qed

lemma bitLen_mono: "a \<le> b \<Longrightarrow> bitLen a \<le> bitLen b"
  using bitLen_le_iff [of a "bitLen b"] bitLen_upper [of b] by simp

lemma roundHalfEven_bounds:
  "n div 2 ^ k \<le> roundHalfEven n k" "roundHalfEven n k \<le> n div 2 ^ k + 1"
  by (simp_all add: roundHalfEven_def Let_def)

lemma roundHalfEven_exact: "roundHalfEven (q * 2 ^ k) k = q"
  by (simp add: roundHalfEven_def Let_def)

lemma roundHalfEven_mono:
  assumes "a \<le> b"
  shows "roundHalfEven a k \<le> roundHalfEven b k"
proof (cases "a div 2 ^ k = b div 2 ^ k")
  case True
  have "a mod 2 ^ k \<le> b mod 2 ^ k"
  proof -
    have "a mod 2 ^ k = a - a div 2 ^ k * 2 ^ k" "b mod 2 ^ k = b - b div 2 ^ k * 2 ^ k"
      by (simp_all add: minus_div_mult_eq_mod)
    with True assms show ?thesis by (simp add: diff_le_mono)
  qed
  with True show ?thesis
    by (auto simp: roundHalfEven_def Let_def)
next
  case False
  from assms have "a div 2 ^ k \<le> b div 2 ^ k" by (rule div_le_mono)
  with False have "a div 2 ^ k + 1 \<le> b div 2 ^ k" by simp
  with roundHalfEven_bounds(2) [of a k] roundHalfEven_bounds(1) [of b k]
  show ?thesis by linarith
qed

lemma roundNat_mono:
  assumes "a \<le> b"
  shows "roundNat c a \<le> roundNat c b"
proof -
  define ka where "ka = max c (bitLen a - 53)"
  define kb where "kb = max c (bitLen b - 53)"
  have ra: "roundNat c a = roundHalfEven a ka * 2 ^ ka"
    and rb: "roundNat c b = roundHalfEven b kb * 2 ^ kb"
    by (simp_all add: roundNat_def ka_def kb_def Let_def)
  have le: "ka \<le> kb"
    using bitLen_mono [OF assms] unfolding ka_def kb_def by linarith
  show ?thesis
  proof (cases "ka = kb")
    case True
    with ra rb roundHalfEven_mono [OF assms, of kb] show ?thesis by simp
  next
    case False
    with le have lt: "ka < kb" by simp
    have kb: "kb = bitLen b - 53" and kb_pos: "0 < bitLen b - 53"
      using lt unfolding ka_def kb_def by linarith+
    from kb_pos have "0 < bitLen b" by linarith
    then have "0 < b" by (rule bitLen_pos)
    then have "2 ^ (bitLen b - 1) \<le> b" by (rule bitLen_lower)
    moreover have "bitLen b - 1 = 52 + kb" using kb kb_pos by simp
    ultimately have "2 ^ 52 * 2 ^ kb \<le> b" by (simp add: power_add)
    from roundHalfEven_mono [OF this, of kb]
    have lower: "2 ^ 52 * 2 ^ kb \<le> roundNat c b"
      by (simp add: rb roundHalfEven_exact)
    have "bitLen a \<le> 53 + ka" by (simp add: ka_def)
    then have "a < 2 ^ (53 + ka)" by (simp add: bitLen_le_iff)
    then have "a \<le> 2 ^ 53 * 2 ^ ka" by (simp add: power_add)
    from roundHalfEven_mono [OF this, of ka]
    have "roundNat c a \<le> 2 ^ 53 * 2 ^ ka"
      by (simp add: ra roundHalfEven_exact)
    also have "\<dots> = 2 ^ 52 * 2 ^ Suc ka" by simp
    also have "\<dots> \<le> 2 ^ 52 * 2 ^ kb"
      using lt by (intro mult_le_mono2 power_increasing) simp_all
    finally show ?thesis using lower by linarith
  qed
qed

lemma roundNat_exact: "n < 2 ^ 53 \<Longrightarrow> roundNat 0 n = n"
proof -
  assume "n < 2 ^ 53"
  then have "bitLen n \<le> 53" by (simp add: bitLen_le_iff)
  then show ?thesis by (simp add: roundNat_def roundHalfEven_def)
qed

lemma roundNat_0 [simp]: "roundNat c 0 = 0"
  by (simp add: roundNat_def roundHalfEven_def bitLen_0)

lemma bitLen_2p64: "bitLen 18446744073709551616 = 65"
  by (simp add: bitLen.simps)

lemma roundNat_2p64: "roundNat 0 18446744073709551616 = 18446744073709551616"
  by (simp add: roundNat_def roundHalfEven_def bitLen_2p64)

lemma roundNat_u64: "bitLen (roundNat 0 (unat (x :: u64))) \<le> 65"
proof -
  have "unat x < 2 ^ 64" using unsigned_less [of x] by simp
  then have "unat x \<le> 18446744073709551616" by simp
  from roundNat_mono [OF this, of 0] have "roundNat 0 (unat x) \<le> 18446744073709551616"
    by (simp add: roundNat_2p64)
  from bitLen_mono [OF this] show ?thesis by (simp add: bitLen_2p64)
qed

lemma float64_of_uint64_eq: "float64_of_uint64 x = Finite False (roundNat 0 (unat x)) 0"
  using roundNat_u64 [of x] by (simp add: float64_of_uint64_def f64_round_def)

lemma product_eq:
  "f64_mul (float64_of_uint64 sz) (Finite False m e) =
     (if 1024 < int (bitLen (prodNat m e sz)) + e then Infinity False
      else Finite False (prodNat m e sz) e)"
  by (simp add: float64_of_uint64_eq f64_round_def prodNat_def)

lemma prodNat_mono: "s1 \<le> s2 \<Longrightarrow> prodNat m e s1 \<le> prodNat m e s2"
  unfolding prodNat_def
  by (intro roundNat_mono mult_le_mono1) (simp add: word_le_nat_alt)

lemma ceilNat_mono: "a \<le> b \<Longrightarrow> ceilNat a e \<le> ceilNat b e"
  by (simp add: ceilNat_def div_le_mono)

lemma floor_le_ceil: "floorNat r e \<le> ceilNat r e"
proof -
  have "(1::nat) \<le> 2 ^ nat (- e)" by simp
  then have "r \<le> r + 2 ^ nat (- e) - 1" by linarith
  then show ?thesis by (simp add: ceilNat_def floorNat_def div_le_mono)
qed

lemma feeInRange_iff:
  "feeInRange sz (Finite False m e) \<longleftrightarrow>
     \<not> 1024 < int (bitLen (prodNat m e sz)) + e \<and> ceilNat (prodNat m e sz) e < 2 ^ 64"
  by (simp add: feeInRange_def product_eq ceilNat_def)

lemma EstimatedFeeValue_eq:
  assumes "\<not> 1024 < int (bitLen (prodNat m e sz)) + e" "ceilNat (prodNat m e sz) e < 2 ^ 64"
  shows "EstimatedFeeValue oor sz (Finite False m e) = word_of_nat (ceilNat (prodNat m e sz) e)"
  using assms by (cases "0 \<le> e") (simp_all add: EstimatedFeeValue_def product_eq ceilNat_def Let_def)

lemma EstimatedFeeValueDown_eq:
  assumes "\<not> 1024 < int (bitLen (prodNat m e sz)) + e" "floorNat (prodNat m e sz) e < 2 ^ 64"
  shows "EstimatedFeeValueDown oor sz (Finite False m e)
           = word_of_nat (floorNat (prodNat m e sz) e)"
  using assms by (cases "0 \<le> e") (simp_all add: EstimatedFeeValueDown_def product_eq floorNat_def Let_def)

lemma sint_nonneg_u64: "0 \<le> sint (x :: u64) \<Longrightarrow> sint x = uint x"
proof -
  assume nn: "0 \<le> sint x"
  have s: "sint x = signed_take_bit 63 (uint x)" by (simp add: sint_uint)
  have hi: "uint x < 2 ^ 63"
  proof (rule ccontr)
    assume "\<not> uint x < 2 ^ 63"
    then have "signed_take_bit 63 (uint x) \<le> uint x - 2 ^ Suc 63"
      by (intro signed_take_bit_int_less_eq) simp
    moreover have "uint x < 2 ^ 64" using uint_bounded [of x] by simp
    ultimately show False using nn s by simp
  qed
  have lo: "- (2 ^ 63) \<le> uint x"
  proof -
    have "- (2 ^ 63) \<le> (0::int)" by simp
    also have "0 \<le> uint x" by simp
    finally show ?thesis .
  qed
  have "signed_take_bit 63 (uint x) = uint x"
    by (rule signed_take_bit_int_eq_self [OF lo hi])
  with s show ?thesis by simp
qed

lemma unat_of_nat_u64: "n < 2 ^ 64 \<Longrightarrow> unat (word_of_nat n :: u64) = n"
  by (simp add: unat_of_nat)

lemma value_le_ceil:
  "(if 0 \<le> e then real r * 2 ^ nat e else real r / 2 ^ nat (- e)) \<le> real (ceilNat r e)"
proof (cases "0 \<le> e")
  case True
  then show ?thesis by (simp add: ceilNat_def)
next
  case False
  define d :: nat where "d = 2 ^ nat (- e)"
  have d: "0 < d" by (simp add: d_def)
  have "r \<le> (r + d - 1) div d * d"
  proof -
    have "r + d - 1 = (r + d - 1) div d * d + (r + d - 1) mod d" by simp
    moreover have "(r + d - 1) mod d \<le> d - 1" using d by (simp add: less_Suc_eq_le [symmetric])
    ultimately show ?thesis using d by linarith
  qed
  then have "real r \<le> real ((r + d - 1) div d) * real d"
    by (metis of_nat_le_iff of_nat_mult)
  then have "real r / real d \<le> real ((r + d - 1) div d)"
    using d by (simp add: field_simps)
  with False show ?thesis by (simp add: ceilNat_def d_def)
qed

lemma floor_le_value:
  "real (floorNat r e) \<le> (if 0 \<le> e then real r * 2 ^ nat e else real r / 2 ^ nat (- e))"
proof (cases "0 \<le> e")
  case True
  then show ?thesis by (simp add: floorNat_def)
next
  case False
  define d :: nat where "d = 2 ^ nat (- e)"
  have d: "0 < d" by (simp add: d_def)
  have "r div d * d \<le> r" by simp
  then have "real (r div d) * real d \<le> real r"
    by (metis of_nat_le_iff of_nat_mult)
  then have "real (r div d) \<le> real r / real d"
    using d by (simp add: field_simps)
  with False show ?thesis by (simp add: floorNat_def d_def)
qed

lemma prodNat_exact:
  assumes "unat sz * m < 2 ^ 53" "- 1074 \<le> e"
  shows "prodNat m e sz = unat sz * m"
proof (cases "m = 0")
  case True
  then show ?thesis by (simp add: prodNat_def)
next
  case False
  then have "unat sz \<le> unat sz * m" by simp
  with assms(1) have "unat sz < 2 ^ 53" by linarith
  then have "roundNat 0 (unat sz) = unat sz" by (rule roundNat_exact)
  moreover from assms(2) have "nat (- 1074 - e) = 0" by simp
  ultimately show ?thesis using roundNat_exact [OF assms(1)] by (simp add: prodNat_def)
qed

text \<open>
  C6 (as amended). For every finite rate that is not negative and all sizes \<open>s1 \<le> s2\<close>
  such that the float64 product computed for \<open>s2\<close> is in range: the fee for \<open>s1\<close> is at
  most the fee for \<open>s2\<close>; the fee for \<open>s2\<close> is at least, and the floored value at most,
  the float64 product \<open>float64(s2) * rate\<close> that the code computes; that product is the
  exact \<open>s2 * rate\<close> whenever \<open>s2\<close> times the rate's mantissa is below \<open>2 ^ 53\<close>; and
  \<open>fees.EstimateFeeValue\<close> agrees with \<open>EstimatedFeeValue\<close> on sizes that are not negative.
\<close>

theorem fee_bounds:
  assumes le: "s1 \<le> s2" and inr: "feeInRange s2 (Finite False m e)"
  shows "EstimatedFeeValue oor s1 (Finite False m e) \<le> EstimatedFeeValue oor s2 (Finite False m e)
    \<and> float64_value (f64_mul (float64_of_uint64 s2) (Finite False m e))
        \<le> real (unat (EstimatedFeeValue oor s2 (Finite False m e)))
    \<and> real (unat (EstimatedFeeValueDown oor s2 (Finite False m e)))
        \<le> float64_value (f64_mul (float64_of_uint64 s2) (Finite False m e))
    \<and> (unat s2 * m < 2 ^ 53 \<and> - 1074 \<le> e \<longrightarrow>
         float64_value (f64_mul (float64_of_uint64 s2) (Finite False m e))
           = real (unat s2) * float64_value (Finite False m e))
    \<and> (0 \<le>s s2 \<longrightarrow>
         EstimateFeeValue oor s2 (Finite False m e) = EstimatedFeeValue oor s2 (Finite False m e))"
proof -
  let ?r = "Finite False m e"
  from inr have fin2: "\<not> 1024 < int (bitLen (prodNat m e s2)) + e"
    and c2: "ceilNat (prodNat m e s2) e < 2 ^ 64"
    by (simp_all add: feeInRange_iff)
  have p12: "prodNat m e s1 \<le> prodNat m e s2" using le by (rule prodNat_mono)
  from bitLen_mono [OF p12] fin2 have fin1: "\<not> 1024 < int (bitLen (prodNat m e s1)) + e"
    by linarith
  from ceilNat_mono [OF p12, of e] c2 have c1: "ceilNat (prodNat m e s1) e < 2 ^ 64"
    and c12: "ceilNat (prodNat m e s1) e \<le> ceilNat (prodNat m e s2) e"
    by linarith+
  have f2: "floorNat (prodNat m e s2) e < 2 ^ 64"
    using floor_le_ceil [of "prodNat m e s2" e] c2 by linarith
  have e1: "EstimatedFeeValue oor s1 ?r = word_of_nat (ceilNat (prodNat m e s1) e)"
    using fin1 c1 by (rule EstimatedFeeValue_eq)
  have e2: "EstimatedFeeValue oor s2 ?r = word_of_nat (ceilNat (prodNat m e s2) e)"
    using fin2 c2 by (rule EstimatedFeeValue_eq)
  have d2: "EstimatedFeeValueDown oor s2 ?r = word_of_nat (floorNat (prodNat m e s2) e)"
    using fin2 f2 by (rule EstimatedFeeValueDown_eq)
  have val: "float64_value (f64_mul (float64_of_uint64 s2) ?r)
      = (if 0 \<le> e then real (prodNat m e s2) * 2 ^ nat e
         else real (prodNat m e s2) / 2 ^ nat (- e))"
    using fin2 by (simp add: product_eq float64_value_def)
  have rv: "float64_value ?r = (if 0 \<le> e then real m * 2 ^ nat e else real m / 2 ^ nat (- e))"
    by (simp add: float64_value_def)
  have mono: "EstimatedFeeValue oor s1 ?r \<le> EstimatedFeeValue oor s2 ?r"
    using c12 c1 c2 by (simp add: e1 e2 word_le_nat_alt unat_of_nat_u64)
  have up: "float64_value (f64_mul (float64_of_uint64 s2) ?r)
      \<le> real (unat (EstimatedFeeValue oor s2 ?r))"
    using value_le_ceil [of e "prodNat m e s2"] c2 by (simp add: val e2 unat_of_nat_u64)
  have down: "real (unat (EstimatedFeeValueDown oor s2 ?r))
      \<le> float64_value (f64_mul (float64_of_uint64 s2) ?r)"
    using floor_le_value [of "prodNat m e s2" e] f2 by (simp add: val d2 unat_of_nat_u64)
  have exact: "float64_value (f64_mul (float64_of_uint64 s2) ?r)
      = real (unat s2) * float64_value ?r" if "unat s2 * m < 2 ^ 53" "- 1074 \<le> e"
    using prodNat_exact [OF that] rv by (simp add: val)
  have same: "EstimateFeeValue oor s2 ?r = EstimatedFeeValue oor s2 ?r" if "0 \<le>s s2"
  proof -
    from that have nn: "0 \<le> sint s2" by (simp add: word_sle_eq)
    then have "nat \<bar>sint s2\<bar> = unat s2" and "\<not> s2 <s 0"
      by (simp_all add: word_sless_alt sint_nonneg_u64)
    then show ?thesis
      by (simp add: EstimateFeeValue_def EstimatedFeeValue_def float64_of_int_def
          float64_of_uint64_def)
  qed
  from mono up down exact same show ?thesis by blast
qed

lemma feeInRange_sample: "feeInRange 1000 (Finite False 13421773 (- 28))"
  by (simp add: feeInRange_def float64_of_uint64_def f64_round_def roundNat_def
      roundHalfEven_def bitLen.simps Let_def)

lemma fee_samples:
  "EstimatedFeeValue sampleOutOfRange 250 (Finite False 13421773 (- 28)) = 13"
  "EstimatedFeeValue sampleOutOfRange 1000 (Finite False 13421773 (- 28)) = 51"
  "EstimatedFeeValueDown sampleOutOfRange 1000 (Finite False 13421773 (- 28)) = 50"
  by (simp_all add: EstimatedFeeValue_def EstimatedFeeValueDown_def float64_of_uint64_def
      f64_round_def roundNat_def roundHalfEven_def bitLen.simps Let_def)

theorem fee_bounds_witness:
  "(250 :: u64) \<le> 1000 \<and> feeInRange 1000 (Finite False 13421773 (- 28))
   \<and> EstimatedFeeValue sampleOutOfRange 250 (Finite False 13421773 (- 28)) = 13
   \<and> EstimatedFeeValue sampleOutOfRange 1000 (Finite False 13421773 (- 28)) = 51
   \<and> EstimatedFeeValueDown sampleOutOfRange 1000 (Finite False 13421773 (- 28)) = 50
   \<and> float64_value (f64_mul (float64_of_uint64 1000) (Finite False 13421773 (- 28))) \<le> 51
   \<and> 50 \<le> float64_value (f64_mul (float64_of_uint64 1000) (Finite False 13421773 (- 28)))
   \<and> float64_value (f64_mul (float64_of_uint64 1000) (Finite False 13421773 (- 28)))
       = 1000 * float64_value (Finite False 13421773 (- 28))
   \<and> EstimateFeeValue sampleOutOfRange 1000 (Finite False 13421773 (- 28)) = 51"
  using fee_bounds [of 250 1000 13421773 "- 28" sampleOutOfRange] feeInRange_sample fee_samples
  by (simp add: word_sle_eq)

text \<open>
  C6 as stated fails: \<open>2 ^ 53 + 1\<close> is not a float64, so at the rate 1 the fee for that
  size is \<open>2 ^ 53\<close>, below size times rate; at the rate \<open>6004799503160662 * 2 ^ - 54\<close> (the
  float64 above one third) the fee for size 3 is 1, below the exact product; and at the
  float64 below one third the floored value for size 3 is 1, above the exact product.
\<close>

theorem fee_exact_product_counterexample:
  "real (unat (EstimatedFeeValue sampleOutOfRange 9007199254740993 (Finite False 1 0)))
     < real (unat (9007199254740993 :: u64)) * float64_value (Finite False 1 0)
   \<and> real (unat (EstimateFeeValue sampleOutOfRange 9007199254740993 (Finite False 1 0)))
     < real_of_int (sint (9007199254740993 :: gint)) * float64_value (Finite False 1 0)
   \<and> real (unat (EstimatedFeeValue sampleOutOfRange 3 (Finite False 6004799503160662 (- 54))))
     < real (unat (3 :: u64)) * float64_value (Finite False 6004799503160662 (- 54))
   \<and> real (unat (3 :: u64)) * float64_value (Finite False 6004799503160661 (- 54))
     < real (unat (EstimatedFeeValueDown sampleOutOfRange 3 (Finite False 6004799503160661 (- 54))))"
proof -
  have a: "EstimatedFeeValue sampleOutOfRange 9007199254740993 (Finite False 1 0)
      = 9007199254740992"
    by (simp add: EstimatedFeeValue_def float64_of_uint64_def f64_round_def roundNat_def
        roundHalfEven_def bitLen.simps Let_def)
  have b: "EstimateFeeValue sampleOutOfRange 9007199254740993 (Finite False 1 0)
      = 9007199254740992"
    by (simp add: EstimateFeeValue_def float64_of_int_def f64_round_def roundNat_def
        roundHalfEven_def bitLen.simps Let_def word_sless_alt)
  have c: "EstimatedFeeValue sampleOutOfRange 3 (Finite False 6004799503160662 (- 54)) = 1"
    by (simp add: EstimatedFeeValue_def float64_of_uint64_def f64_round_def roundNat_def
        roundHalfEven_def bitLen.simps Let_def)
  have d: "EstimatedFeeValueDown sampleOutOfRange 3 (Finite False 6004799503160661 (- 54)) = 1"
    by (simp add: EstimatedFeeValueDown_def float64_of_uint64_def f64_round_def roundNat_def
        roundHalfEven_def bitLen.simps Let_def)
  show ?thesis using a b c d by (simp add: float64_value_def)
qed

subsection \<open>The search for the change output\<close>

lemma findChangeOutput_none:
  "(\<forall>k<length outs. \<not> IsRemainder (outs ! k)) \<Longrightarrow> findChangeOutput i outs = 4294967295"
proof (induction outs arbitrary: i)
  case Nil
  then show ?case by simp
next
  case (Cons a outs)
  from Cons.prems have "\<not> IsRemainder a" by auto
  moreover from Cons.prems have "\<forall>k<length outs. \<not> IsRemainder (outs ! k)" by auto
  ultimately show ?case using Cons.IH by simp
qed

lemma findChangeOutput_first:
  "j < length outs \<Longrightarrow> IsRemainder (outs ! j) \<Longrightarrow> (\<forall>k<j. \<not> IsRemainder (outs ! k))
     \<Longrightarrow> findChangeOutput i outs = i + j"
proof (induction outs arbitrary: i j)
  case Nil
  then show ?case by simp
next
  case (Cons a outs)
  show ?case
  proof (cases j)
    case 0
    with Cons.prems show ?thesis by simp
  next
    case (Suc j')
    with Cons.prems have "\<not> IsRemainder a" by auto
    moreover from Cons.prems Suc have "j' < length outs" "IsRemainder (outs ! j')"
      "\<forall>k<j'. \<not> IsRemainder (outs ! k)" by auto
    ultimately show ?thesis using Cons.IH [of j' "Suc i"] Suc by simp
  qed
qed

lemma findChangeOutput_cases:
  "findChangeOutput i outs = 4294967295
   \<or> (\<exists>j<length outs. findChangeOutput i outs = i + j \<and> IsRemainder (outs ! j)
        \<and> (\<forall>k<j. \<not> IsRemainder (outs ! k)))"
proof (induction outs arbitrary: i)
  case Nil
  then show ?case by simp
next
  case (Cons a outs)
  show ?case
  proof (cases "IsRemainder a")
    case True
    then have "findChangeOutput i (a # outs) = i + 0 \<and> IsRemainder ((a # outs) ! 0)
        \<and> (\<forall>k<0. \<not> IsRemainder ((a # outs) ! k))" by simp
    then show ?thesis by blast
  next
    case False
    from Cons.IH [of "Suc i"] show ?thesis
    proof
      assume "findChangeOutput (Suc i) outs = 4294967295"
      with False show ?thesis by simp
    next
      assume "\<exists>j<length outs. findChangeOutput (Suc i) outs = Suc i + j \<and> IsRemainder (outs ! j)
        \<and> (\<forall>k<j. \<not> IsRemainder (outs ! k))"
      then obtain j where j: "j < length outs" "findChangeOutput (Suc i) outs = Suc i + j"
        "IsRemainder (outs ! j)" "\<forall>k<j. \<not> IsRemainder (outs ! k)" by blast
      have "\<forall>k<Suc j. \<not> IsRemainder ((a # outs) ! k)"
        using False j(4) by (auto simp: less_Suc_eq_0_disj)
      with j False have "Suc j < length (a # outs) \<and> findChangeOutput i (a # outs) = i + Suc j
          \<and> IsRemainder ((a # outs) ! Suc j) \<and> (\<forall>k<Suc j. \<not> IsRemainder ((a # outs) ! k))"
        by simp
      then show ?thesis by blast
    qed
  qed
qed

subsection \<open>The size of an agent-wrapped script\<close>

text \<open>
  C4. For a locking script that is none of the earlier templates and that
  \<open>agent_bitcoin_transfer.MatchScript\<close> matches (it returns the \<open>Info\<close> and no error),
  \<open>txbuilder.UnlockingScriptSize\<close> returns \<open>ApproveUnlockingSize\<close> of the size it computes,
  by a recursive call, for the agent's locking script with the hard verification removed
  (an error of that call is wrapped, and the call that does not return does not return).
  \<open>fees.EstimateUnlockingSize\<close> does not: on every such script it returns
  \<open>ErrWrongScriptTemplate\<close>.
\<close>

theorem agent_wrapped_unlocking_size:
  assumes "\<not> IsP2PK env lockingScript" and "\<not> IsP2PKH env lockingScript"
    and "MultiPKHCounts env lockingScript = Inl e"
    and "MatchScript env lockingScript = (Some info, None)"
  shows "UnlockingScriptSize env lockingScript
           = map_option
               (\<lambda>r. case r of
                  Ok n \<Rightarrow> Ok (ApproveUnlockingSize env n)
                | Err err \<Rightarrow> Err (Wrap err ''agent unlocking size'')
                | Crash \<Rightarrow> Crash)
               (UnlockingScriptSize env (RemoveHardVerify env (AgentLockingScript info)))
     \<and> EstimateUnlockingSize env lockingScript = Some (Err ErrWrongScriptTemplate)"
proof
  show "UnlockingScriptSize env lockingScript
           = map_option
               (\<lambda>r. case r of
                  Ok n \<Rightarrow> Ok (ApproveUnlockingSize env n)
                | Err err \<Rightarrow> Err (Wrap err ''agent unlocking size'')
                | Crash \<Rightarrow> Crash)
               (UnlockingScriptSize env (RemoveHardVerify env (AgentLockingScript info)))"
    using assms
    by (subst UnlockingScriptSize.simps)
       (simp add: map_option_case bind_eq_None_conv split: option.splits)
  show "EstimateUnlockingSize env lockingScript = Some (Err ErrWrongScriptTemplate)"
    using assms by (subst EstimateUnlockingSize.simps) simp
qed

lemma sample_p2pkh_size: "UnlockingScriptSize sampleEnv (p2pkh b) = Some (Ok 108)"
  by (subst UnlockingScriptSize.simps)
     (simp add: sampleEnv_def p2pkh_def MaxSignaturesPushDataSize_def MaxSignatureSize_def
        PublicKeyPushDataSize_def)

theorem agent_wrapped_unlocking_size_witness:
  "UnlockingScriptSize sampleEnv (254 # p2pkh 1) = Some (Ok 109)
   \<and> EstimateUnlockingSize sampleEnv (254 # p2pkh 1) = Some (Err ErrWrongScriptTemplate)"
proof -
  have 1: "\<not> IsP2PK sampleEnv (254 # p2pkh 1)" "\<not> IsP2PKH sampleEnv (254 # p2pkh 1)"
    by (simp_all add: sampleEnv_def p2pkh_def)
  have 2: "MultiPKHCounts sampleEnv (254 # p2pkh 1) = Inl (ErrExternal ''not a multi-pkh script'')"
    by (simp add: sampleEnv_def)
  have 3: "MatchScript sampleEnv (254 # p2pkh 1) = (Some \<lparr>AgentLockingScript = p2pkh 1\<rparr>, None)"
    by (simp add: sampleEnv_def sampleMatchScript_def)
  have 4: "RemoveHardVerify sampleEnv (p2pkh 1) = p2pkh 1"
    by (simp add: sampleEnv_def p2pkh_def)
  have 5: "ApproveUnlockingSize sampleEnv 108 = 109"
    by (simp add: sampleEnv_def)
  from agent_wrapped_unlocking_size [OF 1 2 3] show ?thesis
    by (simp add: 4 5 sample_p2pkh_size)
qed

subsection \<open>The value of an input declared by its placeholder script\<close>

text \<open>
  C5. For input \<open>i\<close> whose recorded value is 0 and whose unlocking script is a false
  op-return that parses to an \<open>UnlockingData\<close> message \<open>d\<close>: the loop of
  \<open>TxBuilder.InputValue\<close> adds \<open>d\<close>'s \<open>Value\<close> for that input, whereas \<open>fees.InputValue\<close> returns
  \<open>d\<close>'s \<open>Size\<close>, which is what the loop of \<open>fees.InputsValue\<close> then adds.
\<close>

theorem unknown_input_value:
  assumes "i < length (TxIn (MsgTx tx))"
    and "IsFalseOpReturn env (UnlockingScript (TxIn (MsgTx tx) ! i))"
    and "ProtocolsParse env (UnlockingScript (TxIn (MsgTx tx) ! i))
           = (Some (UnlockingDataMessage d), None)"
    and "InputSupplement.Value input = 0"
    and "inputOutput i = Inr out" and "TxOut.Value out = 0"
  shows "InputValue_inputs env tx i (input # rest) inputValue
           = InputValue_inputs env tx (Suc i) rest (inputValue + UnlockingData.Value d)
     \<and> fees_InputValue env (TxIn (MsgTx tx) ! i) out = Ok (Size d)
     \<and> InputsValue_inputs env inputOutput i (TxIn (MsgTx tx) ! i # txins) result
           = InputsValue_inputs env inputOutput (Suc i) txins (result + Size d)"
  using assms by (simp add: fees_InputValue_def)

theorem unknown_input_value_witness:
  "TxBuilder_InputValue sampleEnv
     (sampleNoChange
        \<lparr>Inputs := [\<lparr>InputSupplement.LockingScript = [], InputSupplement.Value = 0,
                     InputSupplement.KeyID = []\<rparr>],
         MsgTx := (MsgTx sampleNoChange)
           \<lparr>TxIn := [sampleInput\<lparr>UnlockingScript := [0, 106, 85, 76, 107, 200]\<rparr>]\<rparr>\<rparr>)
     = Ok 200
   \<and> fees_InputValue sampleEnv (sampleInput\<lparr>UnlockingScript := [0, 106, 85, 76, 107, 200]\<rparr>)
        \<lparr>TxOut.Value = 0, TxOut.LockingScript = []\<rparr> = Ok 107
   \<and> InputsValue sampleEnv
        ((MsgTx sampleNoChange)
           \<lparr>TxIn := [sampleInput\<lparr>UnlockingScript := [0, 106, 85, 76, 107, 200]\<rparr>]\<rparr>)
        (\<lambda>i. Inr \<lparr>TxOut.Value = 0, TxOut.LockingScript = []\<rparr>) = Ok 107"
  using unknown_input_value
    [of 0 "sampleNoChange
        \<lparr>Inputs := [\<lparr>InputSupplement.LockingScript = [], InputSupplement.Value = 0,
                     InputSupplement.KeyID = []\<rparr>],
         MsgTx := (MsgTx sampleNoChange)
           \<lparr>TxIn := [sampleInput\<lparr>UnlockingScript := [0, 106, 85, 76, 107, 200]\<rparr>]\<rparr>\<rparr>"
       sampleEnv "\<lparr>Size = 107, Value = 200\<rparr>"
       "\<lparr>InputSupplement.LockingScript = [], InputSupplement.Value = 0,
         InputSupplement.KeyID = []\<rparr>"
       "\<lambda>i. Inr \<lparr>TxOut.Value = 0, TxOut.LockingScript = []\<rparr>"
       "\<lparr>TxOut.Value = 0, TxOut.LockingScript = []\<rparr>" "[]" 0 "[]" 0]
  by (simp add: TxBuilder_InputValue_def InputsValue_def sampleEnv_def sampleProtocolsParse_def
      sampleInput_def sampleNoChange_def)

subsection \<open>The branches of the reconciler\<close>

lemma sless_pos_nonzero: "0 <s (amount :: gint) \<Longrightarrow> amount \<noteq> 0"
  by (auto simp: word_sless_alt)

lemma AdjustFee_increase_eq:
  assumes "0 <s amount" and "j < length (Outputs tx)" and "IsRemainder (Outputs tx ! j)"
    and "\<forall>k<j. \<not> IsRemainder (Outputs tx ! k)"
  shows "AdjustFee env tx amount = Some (AdjustFee_increase env tx amount j)"
  using assms findChangeOutput_first [of j "Outputs tx" 0] sless_pos_nonzero [of amount]
  by (simp add: AdjustFee_def)

lemma AdjustFee_increase_result:
  assumes "j \<noteq> 4294967295" and "j < length (TxOut (MsgTx tx))"
    and "amount \<le> TxOut.Value (TxOut (MsgTx tx) ! j)"
    and "OutputTotalCost env (TxOut.LockingScript (TxOut (MsgTx tx) ! j)) (FeeRate tx)
           = (outputFee, inputFee, e)"
  shows "AdjustFee_increase env tx amount j =
     (if TxOut.Value (TxOut (MsgTx tx) ! j) - amount < outputFee + inputFee
      then
        if \<not> addedForFee (Outputs tx ! j)
        then Return False (Some (Wrap ErrInsufficientValue ''Not enough change for tx fee''))
               (tx\<lparr>MsgTx := (MsgTx tx)\<lparr>TxOut := (TxOut (MsgTx tx))
                  [j := (TxOut (MsgTx tx) ! j)
                     \<lparr>TxOut.Value := TxOut.Value (TxOut (MsgTx tx) ! j) - amount\<rparr>]\<rparr>\<rparr>)
        else Return True None
               (tx\<lparr>MsgTx := (MsgTx tx)\<lparr>TxOut := take j (TxOut (MsgTx tx))
                      @ drop (Suc j) (TxOut (MsgTx tx))\<rparr>,
                   Outputs := take j (Outputs tx) @ drop (Suc j) (Outputs tx)\<rparr>)
      else Return False None
             (tx\<lparr>MsgTx := (MsgTx tx)\<lparr>TxOut := (TxOut (MsgTx tx))
                [j := (TxOut (MsgTx tx) ! j)
                   \<lparr>TxOut.Value := TxOut.Value (TxOut (MsgTx tx) ! j) - amount\<rparr>]\<rparr>\<rparr>))"
  using assms leD [OF assms(3)] by (simp add: AdjustFee_increase_def Let_def)

lemma AdjustFee_increase_shape:
  assumes "AdjustFee_increase env tx amount j = Return d er tx'"
  shows "tx' = tx
     \<or> (j \<noteq> 4294967295 \<and> j < length (TxOut (MsgTx tx))
        \<and> (\<exists>v. tx' = tx\<lparr>MsgTx := (MsgTx tx)\<lparr>TxOut := (TxOut (MsgTx tx))
                     [j := (TxOut (MsgTx tx) ! j)\<lparr>TxOut.Value := v\<rparr>]\<rparr>\<rparr>))
     \<or> (j \<noteq> 4294967295 \<and> j < length (TxOut (MsgTx tx)) \<and> addedForFee (Outputs tx ! j)
        \<and> tx' = tx\<lparr>MsgTx := (MsgTx tx)\<lparr>TxOut := take j (TxOut (MsgTx tx))
                       @ drop (Suc j) (TxOut (MsgTx tx))\<rparr>,
                    Outputs := take j (Outputs tx) @ drop (Suc j) (Outputs tx)\<rparr>)"
proof (cases "j \<noteq> 4294967295 \<and> j < length (TxOut (MsgTx tx))
    \<and> amount \<le> TxOut.Value (TxOut (MsgTx tx) ! j)")
  case False
  with assms show ?thesis
    by (auto simp: AdjustFee_increase_def not_le split: if_splits)
next
  case True
  obtain outputFee inputFee e where
    "OutputTotalCost env (TxOut.LockingScript (TxOut (MsgTx tx) ! j)) (FeeRate tx)
       = (outputFee, inputFee, e)"
    by (cases "OutputTotalCost env (TxOut.LockingScript (TxOut (MsgTx tx) ! j)) (FeeRate tx)")
  with True have "AdjustFee_increase env tx amount j =
     (if TxOut.Value (TxOut (MsgTx tx) ! j) - amount < outputFee + inputFee
      then
        if \<not> addedForFee (Outputs tx ! j)
        then Return False (Some (Wrap ErrInsufficientValue ''Not enough change for tx fee''))
               (tx\<lparr>MsgTx := (MsgTx tx)\<lparr>TxOut := (TxOut (MsgTx tx))
                  [j := (TxOut (MsgTx tx) ! j)
                     \<lparr>TxOut.Value := TxOut.Value (TxOut (MsgTx tx) ! j) - amount\<rparr>]\<rparr>\<rparr>)
        else Return True None
               (tx\<lparr>MsgTx := (MsgTx tx)\<lparr>TxOut := take j (TxOut (MsgTx tx))
                      @ drop (Suc j) (TxOut (MsgTx tx))\<rparr>,
                   Outputs := take j (Outputs tx) @ drop (Suc j) (Outputs tx)\<rparr>)
      else Return False None
             (tx\<lparr>MsgTx := (MsgTx tx)\<lparr>TxOut := (TxOut (MsgTx tx))
                [j := (TxOut (MsgTx tx) ! j)
                   \<lparr>TxOut.Value := TxOut.Value (TxOut (MsgTx tx) ! j) - amount\<rparr>]\<rparr>\<rparr>))"
    by (intro AdjustFee_increase_result) simp_all
  with assms True show ?thesis
    by (auto split: if_splits)
qed

lemma AdjustFee_addChange_shape:
  assumes "AdjustFee_addChange env tx amount currentSize = Return d er tx'"
  shows "tx' = tx
     \<or> (\<exists>v. tx' = tx\<lparr>MsgTx := (MsgTx tx)\<lparr>TxOut := TxOut (MsgTx tx)
                     @ [\<lparr>TxOut.Value = v, TxOut.LockingScript = ChangeScript tx\<rparr>]\<rparr>,
                   Outputs := Outputs tx
                     @ [\<lparr>IsRemainder = True, IsDust = False, KeyID = ChangeKeyID tx,
                         addedForFee = True\<rparr>]\<rparr>)"
  using assms
  by (auto simp: AdjustFee_addChange_def AddOutput_def Let_def
      split: if_splits prod.splits option.splits)

lemma AdjustFee_shape:
  assumes "AdjustFee env tx amount = Some (Return d er tx')"
  shows "tx' = tx
     \<or> (\<exists>j v. j < length (Outputs tx) \<and> IsRemainder (Outputs tx ! j)
          \<and> (\<forall>k<j. \<not> IsRemainder (Outputs tx ! k)) \<and> j < length (TxOut (MsgTx tx))
          \<and> tx' = tx\<lparr>MsgTx := (MsgTx tx)\<lparr>TxOut := (TxOut (MsgTx tx))
                       [j := (TxOut (MsgTx tx) ! j)\<lparr>TxOut.Value := v\<rparr>]\<rparr>\<rparr>)
     \<or> (\<exists>j. j < length (Outputs tx) \<and> IsRemainder (Outputs tx ! j)
          \<and> (\<forall>k<j. \<not> IsRemainder (Outputs tx ! k)) \<and> j < length (TxOut (MsgTx tx))
          \<and> addedForFee (Outputs tx ! j)
          \<and> tx' = tx\<lparr>MsgTx := (MsgTx tx)\<lparr>TxOut := take j (TxOut (MsgTx tx))
                         @ drop (Suc j) (TxOut (MsgTx tx))\<rparr>,
                      Outputs := take j (Outputs tx) @ drop (Suc j) (Outputs tx)\<rparr>)
     \<or> (\<exists>v. tx' = tx\<lparr>MsgTx := (MsgTx tx)\<lparr>TxOut := TxOut (MsgTx tx)
                     @ [\<lparr>TxOut.Value = v, TxOut.LockingScript = ChangeScript tx\<rparr>]\<rparr>,
                   Outputs := Outputs tx
                     @ [\<lparr>IsRemainder = True, IsDust = False, KeyID = ChangeKeyID tx,
                         addedForFee = True\<rparr>]\<rparr>)"
proof (cases "amount = 0")
  case True
  with assms show ?thesis by (simp add: AdjustFee_def)
next
  case nz: False
  define c where "c = findChangeOutput 0 (Outputs tx)"
  have found: "c = 4294967295
     \<or> (c < length (Outputs tx) \<and> IsRemainder (Outputs tx ! c)
        \<and> (\<forall>k<c. \<not> IsRemainder (Outputs tx ! k)))"
    using findChangeOutput_cases [of 0 "Outputs tx"] unfolding c_def by auto
  show ?thesis
  proof (cases "0 <s amount")
    case True
    with assms nz have "AdjustFee_increase env tx amount c = Return d er tx'"
      by (simp add: AdjustFee_def c_def)
    from AdjustFee_increase_shape [OF this] found show ?thesis by blast
  next
    case False
    with assms nz have dec: "AdjustFee_decrease env tx amount c = Some (Return d er tx')"
      by (simp add: AdjustFee_def c_def)
    show ?thesis
    proof (cases "c = 4294967295")
      case True
      with dec obtain currentSize where
        "AdjustFee_addChange env tx amount currentSize = Return d er tx'"
        by (auto simp: AdjustFee_decrease_def split: option.splits res.splits)
      from AdjustFee_addChange_shape [OF this] show ?thesis by blast
    next
      case False
      with dec have "c < length (TxOut (MsgTx tx))"
        and "tx' = tx\<lparr>MsgTx := (MsgTx tx)\<lparr>TxOut := (TxOut (MsgTx tx))
               [c := (TxOut (MsgTx tx) ! c)
                  \<lparr>TxOut.Value := TxOut.Value (TxOut (MsgTx tx) ! c) + (- amount)\<rparr>]\<rparr>\<rparr>"
        by (auto simp: AdjustFee_decrease_def Let_def split: if_splits)
      with found False show ?thesis by blast
    qed
  qed
qed

lemma filter_remove_nth:
  assumes "j < length xs" and "\<not> P (xs ! j)"
  shows "filter P (take j xs) @ filter P (drop (Suc j) xs) = filter P xs"
proof -
  have "xs = take j xs @ xs ! j # drop (Suc j) xs"
    using assms(1) by (rule id_take_nth_drop)
  then have "filter P xs = filter P (take j xs @ xs ! j # drop (Suc j) xs)" by simp
  with assms(2) show ?thesis by simp
qed

subsection \<open>The sample transactions, evaluated\<close>

lemma sample_half_fees:
  "EstimatedFeeValue sampleOutOfRange 34 sampleRate = 17"
  "EstimatedFeeValue sampleOutOfRange 68 sampleRate = 34"
  "EstimatedFeeValue sampleOutOfRange 149 sampleRate = 75"
  "EstimatedFeeValue sampleOutOfRange 298 sampleRate = 149"
  "EstimatedFeeValue sampleOutOfRange 193 sampleRate = 97"
  "EstimatedFeeValue sampleOutOfRange 227 sampleRate = 114"
  by (simp_all add: sampleRate_def EstimatedFeeValue_def float64_of_uint64_def f64_round_def
      roundNat_def roundHalfEven_def bitLen.simps Let_def)

lemma sample_OutputSize: "OutputSize (p2pkh b) = 34"
  by (simp add: OutputSize_def p2pkh_def OutputBaseSize_def VarIntSerializeSize_def)

lemma sample_sizes: "P2PKHOutputSize = 34" "MaximumP2PKHInputSize = 149"
  by (simp_all add: P2PKHOutputSize_def MaximumP2PKHInputSize_def OutputBaseSize_def
      P2PKHOutputScriptSize_def PublicKeyHashPushDataSize_def InputBaseSize_def
      MaximumP2PKHSigScriptSize_def MaxSignaturesPushDataSize_def MaxSignatureSize_def
      PublicKeyPushDataSize_def)

lemma sample_cost:
  "OutputTotalCost sampleEnv (p2pkh b) sampleRate = (17, 75, None)"
  by (simp add: sampleEnv_def sampleOutputTotalCost_def sample_OutputSize sample_sizes
      sample_half_fees)

lemma sample_InputSize: "InputSize sampleEnv (p2pkh b) = Some (Ok 149)"
  by (simp add: InputSize_def sample_p2pkh_size InputBaseSize_def VarIntSerializeSize_def)

lemma sample_EstimatedSize: "EstimatedSize sampleEnv sampleNoChange = Some (Ok 193)"
proof -
  have "length (p2pkh 3) \<noteq> 0" by (simp add: p2pkh_def)
  then have "EstimatedSize_input sampleEnv sampleNoChange 0
      \<lparr>InputSupplement.LockingScript = p2pkh 3, InputSupplement.Value = 10000,
        InputSupplement.KeyID = []\<rparr> = Some (Ok 149)"
    by (simp add: EstimatedSize_input_def sample_InputSize)
  then show ?thesis
    by (simp add: EstimatedSize_def sampleNoChange_def sampleEnv_def sample_OutputSize
        BaseTxSize_def VarIntSerializeSize_def)
qed

lemma sample_FeeRate [simp]: "FeeRate (sampleTx v added) = sampleRate"
  "FeeRate sampleNoChange = sampleRate"
  by (simp_all add: sampleTx_def sampleNoChange_def)

lemma sample_increase:
  assumes "0 <s amount" and "amount \<le> v"
  shows "AdjustFee sampleEnv (sampleTx v added) amount =
     Some (if v - amount < 92
           then if \<not> added
                then Return False
                       (Some (Wrap ErrInsufficientValue ''Not enough change for tx fee''))
                       (sampleTx (v - amount) added)
                else Return True None sampleNoChange
           else Return False None (sampleTx (v - amount) added))"
proof -
  have 1: "AdjustFee sampleEnv (sampleTx v added) amount
      = Some (AdjustFee_increase sampleEnv (sampleTx v added) amount 1)"
    using assms(1) by (intro AdjustFee_increase_eq) (simp_all add: sampleTx_def)
  have 2: "AdjustFee_increase sampleEnv (sampleTx v added) amount 1 =
     (if TxOut.Value (TxOut (MsgTx (sampleTx v added)) ! 1) - amount < 17 + 75
      then
        if \<not> addedForFee (Outputs (sampleTx v added) ! 1)
        then Return False (Some (Wrap ErrInsufficientValue ''Not enough change for tx fee''))
               ((sampleTx v added)\<lparr>MsgTx := (MsgTx (sampleTx v added))
                  \<lparr>TxOut := (TxOut (MsgTx (sampleTx v added)))
                  [1 := (TxOut (MsgTx (sampleTx v added)) ! 1)
                     \<lparr>TxOut.Value := TxOut.Value (TxOut (MsgTx (sampleTx v added)) ! 1)
                        - amount\<rparr>]\<rparr>\<rparr>)
        else Return True None
               ((sampleTx v added)\<lparr>MsgTx := (MsgTx (sampleTx v added))
                  \<lparr>TxOut := take 1 (TxOut (MsgTx (sampleTx v added)))
                      @ drop (Suc 1) (TxOut (MsgTx (sampleTx v added)))\<rparr>,
                   Outputs := take 1 (Outputs (sampleTx v added))
                      @ drop (Suc 1) (Outputs (sampleTx v added))\<rparr>)
      else Return False None
             ((sampleTx v added)\<lparr>MsgTx := (MsgTx (sampleTx v added))
                \<lparr>TxOut := (TxOut (MsgTx (sampleTx v added)))
                [1 := (TxOut (MsgTx (sampleTx v added)) ! 1)
                   \<lparr>TxOut.Value := TxOut.Value (TxOut (MsgTx (sampleTx v added)) ! 1)
                      - amount\<rparr>]\<rparr>\<rparr>))"
  proof (rule AdjustFee_increase_result [where e = None])
    show "(1::nat) \<noteq> 4294967295" by simp
    show "1 < length (TxOut (MsgTx (sampleTx v added)))" by (simp add: sampleTx_def)
    show "amount \<le> TxOut.Value (TxOut (MsgTx (sampleTx v added)) ! 1)"
      using assms(2) by (simp add: sampleTx_def)
    show "OutputTotalCost sampleEnv
        (TxOut.LockingScript (TxOut (MsgTx (sampleTx v added)) ! 1))
        (FeeRate (sampleTx v added)) = (17, 75, None)"
      by (simp add: sampleTx_def sample_cost)
  qed
  show ?thesis unfolding 1 2 by (simp add: sampleTx_def sampleNoChange_def)
qed

lemma sample_pos: "0 <s (45 :: gint)" "0 <s (200 :: gint)"
  by (simp_all add: word_sless_alt)

subsection \<open>Change that falls below its cost\<close>

text \<open>
  C1. Let \<open>amount > 0\<close>, let output \<open>j\<close> be the first with \<open>IsRemainder\<close> (below the
  sentinel \<open>0xffffffff\<close> that the search returns for "none"), with a value of at least
  \<open>amount\<close> that falls below \<open>outputFee + inputFee\<close> once \<open>amount\<close> is subtracted. If the
  output carries \<open>addedForFee\<close>, \<open>AdjustFee\<close> removes it from the transaction and from
  \<open>tx.Outputs\<close> and returns \<open>done = True\<close> with no error. If it does not, \<open>AdjustFee\<close> returns
  an error whose cause is \<open>ErrInsufficientValue\<close>, with as many outputs as before and
  \<open>tx.Outputs\<close> unchanged. And for every call of \<open>AdjustFee\<close> that returns, the outputs
  without \<open>addedForFee\<close> are the same before and after, and when the transaction has fewer
  outputs afterwards, exactly one output was removed and it carried \<open>addedForFee\<close>.
\<close>

theorem change_below_cost:
  assumes "0 <s amount"
    and "j < length (Outputs tx)" and "IsRemainder (Outputs tx ! j)"
    and "\<forall>k<j. \<not> IsRemainder (Outputs tx ! k)"
    and "j \<noteq> 4294967295" and "j < length (TxOut (MsgTx tx))"
    and "amount \<le> TxOut.Value (TxOut (MsgTx tx) ! j)"
    and "OutputTotalCost env (TxOut.LockingScript (TxOut (MsgTx tx) ! j)) (FeeRate tx)
           = (outputFee, inputFee, e)"
    and "TxOut.Value (TxOut (MsgTx tx) ! j) - amount < outputFee + inputFee"
  shows "(addedForFee (Outputs tx ! j) \<longrightarrow>
           AdjustFee env tx amount
             = Some (Return True None
                 (tx\<lparr>MsgTx := (MsgTx tx)\<lparr>TxOut := take j (TxOut (MsgTx tx))
                        @ drop (Suc j) (TxOut (MsgTx tx))\<rparr>,
                     Outputs := take j (Outputs tx) @ drop (Suc j) (Outputs tx)\<rparr>)))
     \<and> (\<not> addedForFee (Outputs tx ! j) \<longrightarrow>
           (\<exists>err tx'. AdjustFee env tx amount = Some (Return False (Some err) tx')
              \<and> Cause err = ErrInsufficientValue
              \<and> Outputs tx' = Outputs tx
              \<and> length (TxOut (MsgTx tx')) = length (TxOut (MsgTx tx))))
     \<and> (\<forall>env0 tx0 amount0 d er tx'.
           AdjustFee env0 tx0 amount0 = Some (Return d er tx') \<longrightarrow>
             filter (\<lambda>out. \<not> addedForFee out) (Outputs tx')
               = filter (\<lambda>out. \<not> addedForFee out) (Outputs tx0)
             \<and> (length (TxOut (MsgTx tx')) < length (TxOut (MsgTx tx0)) \<longrightarrow>
                  (\<exists>i. i < length (Outputs tx0) \<and> addedForFee (Outputs tx0 ! i)
                     \<and> TxOut (MsgTx tx') = take i (TxOut (MsgTx tx0))
                          @ drop (Suc i) (TxOut (MsgTx tx0))
                     \<and> Outputs tx' = take i (Outputs tx0) @ drop (Suc i) (Outputs tx0))))"
proof (intro conjI allI impI)
  have eq: "AdjustFee env tx amount = Some (AdjustFee_increase env tx amount j)"
    using assms(1-4) by (rule AdjustFee_increase_eq)
  note res = AdjustFee_increase_result [OF assms(5-8)]
  show "AdjustFee env tx amount
      = Some (Return True None
          (tx\<lparr>MsgTx := (MsgTx tx)\<lparr>TxOut := take j (TxOut (MsgTx tx))
                 @ drop (Suc j) (TxOut (MsgTx tx))\<rparr>,
              Outputs := take j (Outputs tx) @ drop (Suc j) (Outputs tx)\<rparr>))"
    if "addedForFee (Outputs tx ! j)"
    using that assms(9) by (simp add: eq res)
  show "\<exists>err tx'. AdjustFee env tx amount = Some (Return False (Some err) tx')
      \<and> Cause err = ErrInsufficientValue \<and> Outputs tx' = Outputs tx
      \<and> length (TxOut (MsgTx tx')) = length (TxOut (MsgTx tx))"
    if "\<not> addedForFee (Outputs tx ! j)"
    using that assms(9) by (simp add: eq res)
next
  fix env0 tx0 amount0 d er tx'
  assume call: "AdjustFee env0 tx0 amount0 = Some (Return d er tx')"
  show "filter (\<lambda>out. \<not> addedForFee out) (Outputs tx')
      = filter (\<lambda>out. \<not> addedForFee out) (Outputs tx0)"
    using AdjustFee_shape [OF call]
    by (auto simp: filter_remove_nth)
  show "\<exists>i. i < length (Outputs tx0) \<and> addedForFee (Outputs tx0 ! i)
      \<and> TxOut (MsgTx tx') = take i (TxOut (MsgTx tx0)) @ drop (Suc i) (TxOut (MsgTx tx0))
      \<and> Outputs tx' = take i (Outputs tx0) @ drop (Suc i) (Outputs tx0)"
    if "length (TxOut (MsgTx tx')) < length (TxOut (MsgTx tx0))"
    using AdjustFee_shape [OF call] that
    by auto
qed

theorem change_below_cost_witness:
  "AdjustFee sampleEnv (sampleTx 50 True) 45 = Some (Return True None sampleNoChange)
   \<and> (\<exists>err tx'. AdjustFee sampleEnv (sampleTx 50 False) 45 = Some (Return False (Some err) tx')
        \<and> Cause err = ErrInsufficientValue
        \<and> Outputs tx' = Outputs (sampleTx 50 False)
        \<and> length (TxOut (MsgTx tx')) = length (TxOut (MsgTx (sampleTx 50 False))))
   \<and> filter (\<lambda>out. \<not> addedForFee out) (Outputs sampleNoChange)
        = filter (\<lambda>out. \<not> addedForFee out) (Outputs (sampleTx 50 True))"
proof -
  have call: "AdjustFee sampleEnv (sampleTx 50 True) 45 = Some (Return True None sampleNoChange)"
    using sample_increase [of 45 50 True] sample_pos by simp
  have cost: "OutputTotalCost sampleEnv
      (TxOut.LockingScript (TxOut (MsgTx (sampleTx 50 added)) ! 1)) (FeeRate (sampleTx 50 added))
      = (17, 75, None)" for added
    by (simp add: sampleTx_def sample_cost)
  have a: "addedForFee (Outputs (sampleTx 50 True) ! 1)"
    and b: "\<not> addedForFee (Outputs (sampleTx 50 False) ! 1)"
    by (simp_all add: sampleTx_def)
  have h: "(1::nat) < length (Outputs (sampleTx 50 added))"
    "IsRemainder (Outputs (sampleTx 50 added) ! 1)"
    "\<forall>k<1. \<not> IsRemainder (Outputs (sampleTx 50 added) ! k)"
    "(1::nat) \<noteq> 4294967295"
    "(1::nat) < length (TxOut (MsgTx (sampleTx 50 added)))"
    "45 \<le> TxOut.Value (TxOut (MsgTx (sampleTx 50 added)) ! 1)"
    "TxOut.Value (TxOut (MsgTx (sampleTx 50 added)) ! 1) - 45 < 17 + 75" for added
    by (simp_all add: sampleTx_def sampleNoChange_def)
  note t = change_below_cost [OF sample_pos(1) h(1-6) cost h(7)]
  from t [of True] a call have 1: "filter (\<lambda>out. \<not> addedForFee out) (Outputs sampleNoChange)
        = filter (\<lambda>out. \<not> addedForFee out) (Outputs (sampleTx 50 True))"
    by blast
  from t [of False] b have 2: "\<exists>err tx'.
      AdjustFee sampleEnv (sampleTx 50 False) 45 = Some (Return False (Some err) tx')
        \<and> Cause err = ErrInsufficientValue
        \<and> Outputs tx' = Outputs (sampleTx 50 False)
        \<and> length (TxOut (MsgTx tx')) = length (TxOut (MsgTx (sampleTx 50 False)))"
    by blast
  from call 1 2 show ?thesis by blast
qed

subsection \<open>The failure that leaves the change decreased\<close>

text \<open>
  C10. Under the hypotheses of C1 with an output that does not carry \<open>addedForFee\<close>,
  \<open>AdjustFee\<close> returns \<open>ErrInsufficientValue\<close> (wrapped with "Not enough change for tx fee")
  and leaves the builder with the change output's value decreased by \<open>amount\<close>: the
  builder after the failed call differs from the builder before it.
\<close>

theorem insufficient_change_not_atomic:
  assumes "0 <s amount"
    and "j < length (Outputs tx)" and "IsRemainder (Outputs tx ! j)"
    and "\<forall>k<j. \<not> IsRemainder (Outputs tx ! k)"
    and "j \<noteq> 4294967295" and "j < length (TxOut (MsgTx tx))"
    and "amount \<le> TxOut.Value (TxOut (MsgTx tx) ! j)"
    and "OutputTotalCost env (TxOut.LockingScript (TxOut (MsgTx tx) ! j)) (FeeRate tx)
           = (outputFee, inputFee, e)"
    and "TxOut.Value (TxOut (MsgTx tx) ! j) - amount < outputFee + inputFee"
    and "\<not> addedForFee (Outputs tx ! j)"
  shows "\<exists>tx'. AdjustFee env tx amount
           = Some (Return False
                (Some (Wrap ErrInsufficientValue ''Not enough change for tx fee'')) tx')
     \<and> tx' = tx\<lparr>MsgTx := (MsgTx tx)\<lparr>TxOut := (TxOut (MsgTx tx))
                  [j := (TxOut (MsgTx tx) ! j)
                     \<lparr>TxOut.Value := TxOut.Value (TxOut (MsgTx tx) ! j) - amount\<rparr>]\<rparr>\<rparr>
     \<and> TxOut.Value (TxOut (MsgTx tx') ! j) = TxOut.Value (TxOut (MsgTx tx) ! j) - amount
     \<and> TxOut.Value (TxOut (MsgTx tx') ! j) \<noteq> TxOut.Value (TxOut (MsgTx tx) ! j)
     \<and> tx' \<noteq> tx"
proof -
  have eq: "AdjustFee env tx amount = Some (AdjustFee_increase env tx amount j)"
    using assms(1-4) by (rule AdjustFee_increase_eq)
  note res = AdjustFee_increase_result [OF assms(5-8)]
  define tx' where "tx' = tx\<lparr>MsgTx := (MsgTx tx)\<lparr>TxOut := (TxOut (MsgTx tx))
                  [j := (TxOut (MsgTx tx) ! j)
                     \<lparr>TxOut.Value := TxOut.Value (TxOut (MsgTx tx) ! j) - amount\<rparr>]\<rparr>\<rparr>"
  have call: "AdjustFee env tx amount
      = Some (Return False (Some (Wrap ErrInsufficientValue ''Not enough change for tx fee'')) tx')"
    using assms(9,10) by (simp add: eq res tx'_def)
  have v: "TxOut.Value (TxOut (MsgTx tx') ! j) = TxOut.Value (TxOut (MsgTx tx) ! j) - amount"
    using assms(6) by (simp add: tx'_def)
  have "amount \<noteq> 0" using assms(1) by (rule sless_pos_nonzero)
  then have ne: "TxOut.Value (TxOut (MsgTx tx') ! j) \<noteq> TxOut.Value (TxOut (MsgTx tx) ! j)"
    by (simp add: v)
  then have "tx' \<noteq> tx" by auto
  with call v ne show ?thesis unfolding tx'_def by blast
qed

theorem insufficient_change_not_atomic_witness:
  "AdjustFee sampleEnv (sampleTx 50 False) 45
     = Some (Return False (Some (Wrap ErrInsufficientValue ''Not enough change for tx fee''))
          (sampleTx 5 False))
   \<and> TxOut.Value (TxOut (MsgTx (sampleTx 50 False)) ! 1) = 50
   \<and> TxOut.Value (TxOut (MsgTx (sampleTx 5 False)) ! 1) = 5"
proof -
  have cost: "OutputTotalCost sampleEnv
      (TxOut.LockingScript (TxOut (MsgTx (sampleTx 50 False)) ! 1)) (FeeRate (sampleTx 50 False))
      = (17, 75, None)"
    by (simp add: sampleTx_def sample_cost)
  have h: "(1::nat) < length (Outputs (sampleTx 50 False))"
    "IsRemainder (Outputs (sampleTx 50 False) ! 1)"
    "\<forall>k<1. \<not> IsRemainder (Outputs (sampleTx 50 False) ! k)"
    "(1::nat) \<noteq> 4294967295"
    "(1::nat) < length (TxOut (MsgTx (sampleTx 50 False)))"
    "45 \<le> TxOut.Value (TxOut (MsgTx (sampleTx 50 False)) ! 1)"
    "TxOut.Value (TxOut (MsgTx (sampleTx 50 False)) ! 1) - 45 < 17 + 75"
    "\<not> addedForFee (Outputs (sampleTx 50 False) ! 1)"
    by (simp_all add: sampleTx_def sampleNoChange_def)
  from insufficient_change_not_atomic [OF sample_pos(1) h(1-6) cost h(7,8)]
  show ?thesis by (simp add: sampleTx_def sampleNoChange_def)
qed

subsection \<open>Scenario A\<close>

text \<open>
  C2 (as amended). When the first \<open>IsRemainder\<close> output has the value 1000 and 800 is not
  below \<open>outputFee + inputFee\<close> for its script, \<open>AdjustFee\<close> with 200 sets that output's
  value to 800, changes nothing else (no output is deleted) and returns no error, with
  \<open>done = False\<close>.
\<close>

theorem change_reduced_in_place:
  assumes "j < length (Outputs tx)" and "IsRemainder (Outputs tx ! j)"
    and "\<forall>k<j. \<not> IsRemainder (Outputs tx ! k)"
    and "j \<noteq> 4294967295" and "j < length (TxOut (MsgTx tx))"
    and "TxOut.Value (TxOut (MsgTx tx) ! j) = 1000"
    and "OutputTotalCost env (TxOut.LockingScript (TxOut (MsgTx tx) ! j)) (FeeRate tx)
           = (outputFee, inputFee, e)"
    and "\<not> 800 < outputFee + inputFee"
  shows "AdjustFee env tx 200
           = Some (Return False None
               (tx\<lparr>MsgTx := (MsgTx tx)\<lparr>TxOut := (TxOut (MsgTx tx))
                  [j := (TxOut (MsgTx tx) ! j)\<lparr>TxOut.Value := 800\<rparr>]\<rparr>\<rparr>))"
proof -
  have eq: "AdjustFee env tx 200 = Some (AdjustFee_increase env tx 200 j)"
    using sample_pos(2) assms(1-3) by (rule AdjustFee_increase_eq)
  have "200 \<le> TxOut.Value (TxOut (MsgTx tx) ! j)" by (simp add: assms(6))
  note res = AdjustFee_increase_result [OF assms(4,5) this assms(7)]
  show ?thesis using assms(8) by (simp add: eq res assms(6))
qed

theorem change_reduced_in_place_witness:
  "AdjustFee sampleEnv (sampleTx 1000 True) 200 = Some (Return False None (sampleTx 800 True))"
proof -
  have cost: "OutputTotalCost sampleEnv
      (TxOut.LockingScript (TxOut (MsgTx (sampleTx 1000 True)) ! 1))
      (FeeRate (sampleTx 1000 True)) = (17, 75, None)"
    by (simp add: sampleTx_def sample_cost)
  have h: "(1::nat) < length (Outputs (sampleTx 1000 True))"
    "IsRemainder (Outputs (sampleTx 1000 True) ! 1)"
    "\<forall>k<1. \<not> IsRemainder (Outputs (sampleTx 1000 True) ! k)"
    "(1::nat) \<noteq> 4294967295"
    "(1::nat) < length (TxOut (MsgTx (sampleTx 1000 True)))"
    "TxOut.Value (TxOut (MsgTx (sampleTx 1000 True)) ! 1) = 1000"
    "\<not> 800 < (17 :: u64) + 75"
    by (simp_all add: sampleTx_def sampleNoChange_def)
  from change_reduced_in_place [OF h(1-6) cost h(7)]
  show ?thesis by (simp add: sampleTx_def sampleNoChange_def)
qed

text \<open>
  C2 as stated fails: with one change output of 1000 whose cost is 17 + 75, the call
  with 200 leaves 800 in place and returns \<open>done = False\<close>.
\<close>

theorem scenario_A_counterexample:
  "sampleOutputTotalCost (p2pkh 2) sampleRate = (17, 75, None)
   \<and> map IsRemainder (Outputs (sampleTx 1000 False)) = [False, True]
   \<and> map TxOut.Value (TxOut (MsgTx (sampleTx 1000 False))) = [5000, 1000]
   \<and> AdjustFee sampleEnv (sampleTx 1000 False) 200
       = Some (Return False None (sampleTx 800 False))"
  using sample_increase [of 200 1000 False] sample_pos(2) sample_cost [of 2]
  by (simp add: sampleTx_def sampleNoChange_def sampleEnv_def)

subsection \<open>The size estimation returns\<close>

lemma UnlockingScriptSize_returns:
  assumes shrink: "\<forall>s info. MatchScript env s = (Some info, None) \<longrightarrow>
             length (RemoveHardVerify env (AgentLockingScript info)) < length s"
  shows "\<exists>r. UnlockingScriptSize env s = Some r \<and> r \<noteq> Crash"
proof (induction s rule: length_induct)
  case (1 s)
  obtain oi oe where m: "MatchScript env s = (oi, oe)"
    by (cases "MatchScript env s")
  show ?case
  proof (cases "\<exists>info. oi = Some info \<and> oe = None")
    case True
    then obtain info where mi: "MatchScript env s = (Some info, None)"
      using m by auto
    with shrink have "length (RemoveHardVerify env (AgentLockingScript info)) < length s"
      by blast
    with 1 obtain r
      where r: "UnlockingScriptSize env (RemoveHardVerify env (AgentLockingScript info)) = Some r"
        and nc: "r \<noteq> Crash"
      by blast
    from nc show ?thesis
      by (subst UnlockingScriptSize.simps)
         (cases r; simp add: mi r Let_def split: sum.splits prod.splits)
  next
    case False
    with m show ?thesis
      by (subst UnlockingScriptSize.simps)
         (auto simp add: Let_def split: sum.splits prod.splits option.splits)
  qed
qed

lemma InputSize_returns:
  assumes "\<forall>s info. MatchScript env s = (Some info, None) \<longrightarrow>
             length (RemoveHardVerify env (AgentLockingScript info)) < length s"
  shows "\<exists>r. InputSize env s = Some r \<and> r \<noteq> Crash"
proof -
  from UnlockingScriptSize_returns [OF assms, of s] obtain r
    where "UnlockingScriptSize env s = Some r" and "r \<noteq> Crash"
    by blast
  then show ?thesis by (cases r) (simp_all add: InputSize_def)
qed

lemma EstimatedSize_input_returns:
  assumes "\<forall>s info. MatchScript env s = (Some info, None) \<longrightarrow>
             length (RemoveHardVerify env (AgentLockingScript info)) < length s"
    and "i < length (TxIn (MsgTx tx))"
  shows "\<exists>sz. EstimatedSize_input env tx i input = Some (Ok sz)"
proof -
  from InputSize_returns [OF assms(1), of "InputSupplement.LockingScript input"] obtain r
    where r: "InputSize env (InputSupplement.LockingScript input) = Some r" and "r \<noteq> Crash"
    by blast
  then have "\<exists>sz. Option.bind (InputSize env (InputSupplement.LockingScript input))
          (\<lambda>r. Some (case r of
             Ok sz \<Rightarrow> Ok sz
           | Err err \<Rightarrow> Ok MaximumP2PKHInputSize
           | Crash \<Rightarrow> Crash)) = Some (Ok sz)"
    by (cases r) simp_all
  then obtain sz where "Option.bind (InputSize env (InputSupplement.LockingScript input))
          (\<lambda>r. Some (case r of
             Ok sz \<Rightarrow> Ok sz
           | Err err \<Rightarrow> Ok MaximumP2PKHInputSize
           | Crash \<Rightarrow> Crash)) = Some (Ok sz)"
    by blast
  with assms(2) show ?thesis
    by (auto simp add: EstimatedSize_input_def Let_def
        split: prod.splits option.splits Message.splits)
qed

lemma EstimatedSize_inputs_returns:
  assumes "\<forall>s info. MatchScript env s = (Some info, None) \<longrightarrow>
             length (RemoveHardVerify env (AgentLockingScript info)) < length s"
    and "i + length inputs \<le> length (TxIn (MsgTx tx))"
  shows "\<exists>sz. EstimatedSize_inputs env tx i inputs result = Some (Ok sz)"
  using assms(2)
proof (induction inputs arbitrary: i result)
  case Nil
  show ?case by simp
next
  case (Cons input rest)
  from Cons.prems have "i < length (TxIn (MsgTx tx))" by simp
  from EstimatedSize_input_returns [OF assms(1) this, of input] obtain sz
    where sz: "EstimatedSize_input env tx i input = Some (Ok sz)"
    by blast
  from Cons.prems have "Suc i + length rest \<le> length (TxIn (MsgTx tx))" by simp
  from Cons.IH [OF this, of "result + sz"] sz show ?case by simp
qed

lemma EstimatedSize_returns:
  assumes "\<forall>s info. MatchScript env s = (Some info, None) \<longrightarrow>
             length (RemoveHardVerify env (AgentLockingScript info)) < length s"
    and "length (Inputs tx) \<le> length (TxIn (MsgTx tx))"
  shows "\<exists>currentSize. EstimatedSize env tx = Some (Ok currentSize)"
proof -
  from assms(2) have "0 + length (Inputs tx) \<le> length (TxIn (MsgTx tx))" by simp
  from EstimatedSize_inputs_returns [OF assms(1) this] obtain sz
    where "EstimatedSize_inputs env tx 0 (Inputs tx)
             (BaseTxSize
              + WireVarIntSerializeSize env (word_of_nat (length (TxIn (MsgTx tx))))
              + WireVarIntSerializeSize env (word_of_nat (length (TxOut (MsgTx tx)))))
           = Some (Ok sz)"
    by blast
  then show ?thesis
    by (simp add: EstimatedSize_def Let_def)
qed


subsection \<open>Creating the change output\<close>

lemma sless_neg: "(amount :: gint) <s 0 \<Longrightarrow> amount \<noteq> 0 \<and> \<not> 0 <s amount"
  by (auto simp: word_sless_alt)

lemma AdjustFee_addChange_eq:
  assumes "\<forall>k<length (Outputs tx). \<not> IsRemainder (Outputs tx ! k)"
    and "amount <s 0"
    and "EstimatedSize env tx = Some (Ok currentSize)"
  shows "AdjustFee env tx amount = Some (AdjustFee_addChange env tx amount currentSize)"
  using findChangeOutput_none [OF assms(1), of 0] sless_neg [OF assms(2)] assms(3)
  by (simp add: AdjustFee_def AdjustFee_decrease_def)

lemma AdjustFee_addChange_branches:
  assumes "\<forall>k<length (Outputs tx). \<not> IsRemainder (Outputs tx ! k)"
    and "amount <s 0"
    and "EstimatedSize env tx = Some (Ok currentSize)"
    and "currentFee = EstimatedFeeValue (OutOfRange env) currentSize (FeeRate tx)"
    and "hypotheticalFee = EstimatedFeeValue (OutOfRange env)
           (currentSize + (if ChangeScript tx = [] then P2PKHOutputSize
                           else OutputSize (ChangeScript tx)))
           (FeeRate tx)"
    and "inducedCost = hypotheticalFee - currentFee"
    and "adjustment = - amount - inducedCost"
    and "outputFee = (if ChangeScript tx = []
           then EstimatedFeeValue (OutOfRange env) (P2PKHOutputSize * 2) (FeeRate tx)
           else fst (OutputTotalCost env (ChangeScript tx) (FeeRate tx)))"
    and "inputFee = (if ChangeScript tx = []
           then EstimatedFeeValue (OutOfRange env) (MaximumP2PKHInputSize * 2) (FeeRate tx)
           else fst (snd (OutputTotalCost env (ChangeScript tx) (FeeRate tx))))"
  shows "(- amount < inducedCost \<longrightarrow> AdjustFee env tx amount = Some (Return True None tx))
     \<and> (\<not> - amount < inducedCost \<and> outputFee + inputFee < adjustment
          \<and> ChangeScript tx \<noteq> []
          \<and> AddOutputCheck env tx (ChangeScript tx) adjustment True False = None \<longrightarrow>
        AdjustFee env tx amount
          = Some (Return False None
              (tx\<lparr>MsgTx := (MsgTx tx)\<lparr>TxOut := TxOut (MsgTx tx)
                     @ [\<lparr>TxOut.Value = adjustment, TxOut.LockingScript = ChangeScript tx\<rparr>]\<rparr>,
                  Outputs := Outputs tx
                     @ [\<lparr>IsRemainder = True, IsDust = False, KeyID = ChangeKeyID tx,
                         addedForFee = True\<rparr>]\<rparr>)))
     \<and> (\<not> - amount < inducedCost \<and> outputFee + inputFee < adjustment
          \<and> ChangeScript tx = [] \<longrightarrow>
        (\<exists>err. AdjustFee env tx amount = Some (Return False (Some err) tx)
           \<and> Cause err = ErrChangeAddressNeeded))
     \<and> (\<not> - amount < inducedCost \<and> \<not> outputFee + inputFee < adjustment \<longrightarrow>
        AdjustFee env tx amount = Some (Return True None tx))"
proof -
  note eq = AdjustFee_addChange_eq [OF assms(1-3)]
  show ?thesis
  proof (cases "ChangeScript tx = []")
    case True
    then show ?thesis
      unfolding eq assms(4-9)
      by (simp add: AdjustFee_addChange_def Let_def)
  next
    case False
    obtain a b c where otc: "OutputTotalCost env (ChangeScript tx) (FeeRate tx) = (a, b, c)"
      by (cases "OutputTotalCost env (ChangeScript tx) (FeeRate tx)")
    from False show ?thesis
      unfolding eq assms(4-9)
      by (simp add: AdjustFee_addChange_def AddOutput_def Let_def otc)
  qed
qed

text \<open>
  C3. Let no output carry \<open>IsRemainder\<close>, \<open>amount < 0\<close>, let the transaction have an input
  for every input of the builder, and let the agent script that the matcher finds in a
  script be shorter than that script once its hard verification is removed. Then
  \<open>EstimatedSize\<close> returns a size \<open>currentSize\<close>, and with \<open>inducedCost\<close> the fee of the size
  with one more output (of the change script, or of P2PKH size when none is configured)
  minus the current fee, \<open>adjustment = - amount - inducedCost\<close>, and \<open>outputFee\<close>, \<open>inputFee\<close>
  the cost of the change script (the doubled P2PKH estimates when none is configured): if
  \<open>inducedCost > - amount\<close>, \<open>AdjustFee\<close> returns \<open>done = True\<close> and the builder unchanged.
  Otherwise, if \<open>adjustment > outputFee + inputFee\<close>: with a change script (and \<open>AddOutput\<close>
  accepting the output) it appends an output of value \<open>adjustment\<close> to the change script,
  flagged \<open>IsRemainder\<close> and \<open>addedForFee\<close>, and returns \<open>done = False\<close>; with no change script
  it fails with \<open>ErrChangeAddressNeeded\<close> and the builder unchanged. Otherwise it returns
  \<open>done = True\<close> and the builder unchanged.
\<close>

theorem add_change_output:
  assumes "\<forall>k<length (Outputs tx). \<not> IsRemainder (Outputs tx ! k)"
    and "amount <s 0"
    and "length (Inputs tx) \<le> length (TxIn (MsgTx tx))"
    and "\<forall>s info. MatchScript env s = (Some info, None) \<longrightarrow>
           length (RemoveHardVerify env (AgentLockingScript info)) < length s"
  shows "\<exists>currentSize. EstimatedSize env tx = Some (Ok currentSize) \<and>
    (let currentFee = EstimatedFeeValue (OutOfRange env) currentSize (FeeRate tx);
         hypotheticalFee = EstimatedFeeValue (OutOfRange env)
           (currentSize + (if ChangeScript tx = [] then P2PKHOutputSize
                           else OutputSize (ChangeScript tx)))
           (FeeRate tx);
         inducedCost = hypotheticalFee - currentFee;
         adjustment = - amount - inducedCost;
         outputFee = (if ChangeScript tx = []
           then EstimatedFeeValue (OutOfRange env) (P2PKHOutputSize * 2) (FeeRate tx)
           else fst (OutputTotalCost env (ChangeScript tx) (FeeRate tx)));
         inputFee = (if ChangeScript tx = []
           then EstimatedFeeValue (OutOfRange env) (MaximumP2PKHInputSize * 2) (FeeRate tx)
           else fst (snd (OutputTotalCost env (ChangeScript tx) (FeeRate tx))))
     in (- amount < inducedCost \<longrightarrow> AdjustFee env tx amount = Some (Return True None tx))
      \<and> (\<not> - amount < inducedCost \<and> outputFee + inputFee < adjustment
          \<and> ChangeScript tx \<noteq> []
          \<and> AddOutputCheck env tx (ChangeScript tx) adjustment True False = None \<longrightarrow>
        AdjustFee env tx amount
          = Some (Return False None
              (tx\<lparr>MsgTx := (MsgTx tx)\<lparr>TxOut := TxOut (MsgTx tx)
                     @ [\<lparr>TxOut.Value = adjustment, TxOut.LockingScript = ChangeScript tx\<rparr>]\<rparr>,
                  Outputs := Outputs tx
                     @ [\<lparr>IsRemainder = True, IsDust = False, KeyID = ChangeKeyID tx,
                         addedForFee = True\<rparr>]\<rparr>)))
      \<and> (\<not> - amount < inducedCost \<and> outputFee + inputFee < adjustment
          \<and> ChangeScript tx = [] \<longrightarrow>
        (\<exists>err. AdjustFee env tx amount = Some (Return False (Some err) tx)
           \<and> Cause err = ErrChangeAddressNeeded))
      \<and> (\<not> - amount < inducedCost \<and> \<not> outputFee + inputFee < adjustment \<longrightarrow>
        AdjustFee env tx amount = Some (Return True None tx)))"
proof -
  from EstimatedSize_returns [OF assms(4) assms(3)] obtain currentSize
    where cs: "EstimatedSize env tx = Some (Ok currentSize)"
    by blast
  from AdjustFee_addChange_branches [OF assms(1) assms(2) cs refl refl refl refl refl refl] cs
  show ?thesis
    unfolding Let_def by blast
qed

lemma sample_EstimatedSize_cs:
  "EstimatedSize sampleEnv (sampleNoChange\<lparr>ChangeScript := cs\<rparr>) = Some (Ok 193)"
proof -
  have "length (p2pkh 3) \<noteq> 0" by (simp add: p2pkh_def)
  then have "EstimatedSize_input sampleEnv (sampleNoChange\<lparr>ChangeScript := cs\<rparr>) 0
      \<lparr>InputSupplement.LockingScript = p2pkh 3, InputSupplement.Value = 10000,
        InputSupplement.KeyID = []\<rparr> = Some (Ok 149)"
    by (simp add: EstimatedSize_input_def sample_InputSize)
  then show ?thesis
    by (simp add: EstimatedSize_def sampleNoChange_def sampleEnv_def sample_OutputSize
        BaseTxSize_def VarIntSerializeSize_def)
qed

lemma sample_neg: "(- 10 :: gint) <s 0" "(- 100 :: gint) <s 0" "(- 500 :: gint) <s 0"
  by (simp_all add: word_sless_alt)

lemma sample_no_remainder:
  "\<forall>k<length (Outputs (sampleNoChange\<lparr>ChangeScript := cs\<rparr>)).
     \<not> IsRemainder (Outputs (sampleNoChange\<lparr>ChangeScript := cs\<rparr>) ! k)"
  "\<forall>k<length (Outputs sampleNoChange). \<not> IsRemainder (Outputs sampleNoChange ! k)"
  by (simp_all add: sampleNoChange_def)

lemma sample_env_fields: "OutOfRange sampleEnv = sampleOutOfRange"
  "AddOutputCheck sampleEnv tx ls v r d = None"
  by (simp_all add: sampleEnv_def)

lemma sample_cs: "ChangeScript sampleNoChange = p2pkh 2" "p2pkh 2 \<noteq> []"
  "ChangeKeyID sampleNoChange = ''change''"
  by (simp_all add: sampleNoChange_def p2pkh_def)

lemma sample_inputs:
  "length (Inputs (sampleNoChange\<lparr>ChangeScript := cs\<rparr>))
     \<le> length (TxIn (MsgTx (sampleNoChange\<lparr>ChangeScript := cs\<rparr>)))"
  "length (Inputs sampleNoChange) \<le> length (TxIn (MsgTx sampleNoChange))"
  by (simp_all add: sampleNoChange_def)

lemma sample_shrink:
  "\<forall>s info. MatchScript sampleEnv s = (Some info, None) \<longrightarrow>
     length (RemoveHardVerify sampleEnv (AgentLockingScript info)) < length s"
proof (intro allI impI)
  fix s info
  assume "MatchScript sampleEnv s = (Some info, None)"
  then have "s \<noteq> []" and "AgentLockingScript info = tl s"
    by (auto simp add: sampleEnv_def sampleMatchScript_def split: if_splits)
  moreover have "length (RemoveHardVerify sampleEnv t) = length t" for t
    by (cases "t = []") (simp_all add: sampleEnv_def)
  ultimately show "length (RemoveHardVerify sampleEnv (AgentLockingScript info)) < length s"
    by simp
qed

theorem add_change_output_witness:
  "AdjustFee sampleEnv sampleNoChange (- 10) = Some (Return True None sampleNoChange)
   \<and> AdjustFee sampleEnv sampleNoChange (- 500) = Some (Return False None (sampleTx 483 True))
   \<and> (\<exists>err. AdjustFee sampleEnv (sampleNoChange\<lparr>ChangeScript := []\<rparr>) (- 500)
               = Some (Return False (Some err) (sampleNoChange\<lparr>ChangeScript := []\<rparr>))
          \<and> Cause err = ErrChangeAddressNeeded)
   \<and> AdjustFee sampleEnv sampleNoChange (- 100) = Some (Return True None sampleNoChange)"
proof -
  have fees: "EstimatedFeeValue (OutOfRange sampleEnv) 193 (FeeRate sampleNoChange) = 97"
    "EstimatedFeeValue (OutOfRange sampleEnv)
       (193 + (if ChangeScript sampleNoChange = [] then P2PKHOutputSize
               else OutputSize (ChangeScript sampleNoChange)))
       (FeeRate sampleNoChange) = 114"
    "(if ChangeScript sampleNoChange = []
      then EstimatedFeeValue (OutOfRange sampleEnv) (P2PKHOutputSize * 2) (FeeRate sampleNoChange)
      else fst (OutputTotalCost sampleEnv (ChangeScript sampleNoChange) (FeeRate sampleNoChange)))
     = 17"
    "(if ChangeScript sampleNoChange = []
      then EstimatedFeeValue (OutOfRange sampleEnv) (MaximumP2PKHInputSize * 2)
             (FeeRate sampleNoChange)
      else fst (snd (OutputTotalCost sampleEnv (ChangeScript sampleNoChange)
                       (FeeRate sampleNoChange))))
     = 75"
    by (simp_all add: sample_env_fields sample_cs sample_OutputSize sample_half_fees sample_cost)
  have t: "(- amount < 114 - 97 \<longrightarrow>
             AdjustFee sampleEnv sampleNoChange amount = Some (Return True None sampleNoChange))
     \<and> (\<not> - amount < 114 - 97 \<and> 17 + 75 < - amount - (114 - 97)
          \<and> ChangeScript sampleNoChange \<noteq> []
          \<and> AddOutputCheck sampleEnv sampleNoChange (ChangeScript sampleNoChange)
               (- amount - (114 - 97)) True False = None \<longrightarrow>
        AdjustFee sampleEnv sampleNoChange amount
          = Some (Return False None
              (sampleNoChange\<lparr>MsgTx := (MsgTx sampleNoChange)\<lparr>TxOut := TxOut (MsgTx sampleNoChange)
                     @ [\<lparr>TxOut.Value = - amount - (114 - 97),
                         TxOut.LockingScript = ChangeScript sampleNoChange\<rparr>]\<rparr>,
                  Outputs := Outputs sampleNoChange
                     @ [\<lparr>IsRemainder = True, IsDust = False, KeyID = ChangeKeyID sampleNoChange,
                         addedForFee = True\<rparr>]\<rparr>)))
     \<and> (\<not> - amount < 114 - 97 \<and> \<not> 17 + 75 < - amount - (114 - 97) \<longrightarrow>
        AdjustFee sampleEnv sampleNoChange amount = Some (Return True None sampleNoChange))"
    if "amount <s 0" for amount
    using add_change_output [OF sample_no_remainder(2) that sample_inputs(2) sample_shrink]
    unfolding sample_EstimatedSize Let_def
    by (elim exE conjE) (simp only: option.inject res.inject, hypsubst, simp only: fees)
  have a: "AdjustFee sampleEnv sampleNoChange (- 10) = Some (Return True None sampleNoChange)"
    using t [OF sample_neg(1)] by simp
  have b: "AdjustFee sampleEnv sampleNoChange (- 500)
      = Some (Return False None (sampleTx 483 True))"
    using t [OF sample_neg(3)]
    by (simp add: sample_env_fields sample_cs sampleTx_def) (simp add: sampleNoChange_def)
  have d: "AdjustFee sampleEnv sampleNoChange (- 100) = Some (Return True None sampleNoChange)"
    using t [OF sample_neg(2)] by simp
  have c: "\<exists>err. AdjustFee sampleEnv (sampleNoChange\<lparr>ChangeScript := []\<rparr>) (- 500)
               = Some (Return False (Some err) (sampleNoChange\<lparr>ChangeScript := []\<rparr>))
          \<and> Cause err = ErrChangeAddressNeeded"
    using add_change_output [OF sample_no_remainder(1) sample_neg(3) sample_inputs(1)
        sample_shrink, of "[]"]
    unfolding sample_EstimatedSize_cs Let_def
    by (elim exE conjE) (simp add: sample_env_fields sample_sizes sample_half_fees)
  from a b c d show ?thesis by blast
qed

subsection \<open>The frame of the reconciler\<close>

text \<open>
  C8. Every call of \<open>AdjustFee\<close> that returns, with or without an error, leaves the inputs
  (of the builder and of the transaction) and the builder's other fields as they were, and
  the outputs either as they were, or with the value of the first \<open>IsRemainder\<close> output
  changed, or with that output removed, or with one new output appended that carries
  \<open>IsRemainder\<close> and \<open>addedForFee\<close>. (A call that panics or does not return does so before it
  writes anything.)
\<close>

theorem AdjustFee_frame:
  assumes "AdjustFee env tx amount = Some (Return d er tx')"
  shows "Inputs tx' = Inputs tx
     \<and> TxIn (MsgTx tx') = TxIn (MsgTx tx)
     \<and> Version (MsgTx tx') = Version (MsgTx tx)
     \<and> LockTime (MsgTx tx') = LockTime (MsgTx tx)
     \<and> ChangeScript tx' = ChangeScript tx
     \<and> ChangeKeyID tx' = ChangeKeyID tx
     \<and> FeeRate tx' = FeeRate tx
     \<and> DustFeeRate tx' = DustFeeRate tx
     \<and> ((TxOut (MsgTx tx') = TxOut (MsgTx tx) \<and> Outputs tx' = Outputs tx)
        \<or> (\<exists>j v. j < length (Outputs tx) \<and> IsRemainder (Outputs tx ! j)
              \<and> (\<forall>k<j. \<not> IsRemainder (Outputs tx ! k)) \<and> j < length (TxOut (MsgTx tx))
              \<and> TxOut (MsgTx tx')
                   = (TxOut (MsgTx tx))[j := (TxOut (MsgTx tx) ! j)\<lparr>TxOut.Value := v\<rparr>]
              \<and> Outputs tx' = Outputs tx)
        \<or> (\<exists>j. j < length (Outputs tx) \<and> IsRemainder (Outputs tx ! j)
              \<and> (\<forall>k<j. \<not> IsRemainder (Outputs tx ! k)) \<and> j < length (TxOut (MsgTx tx))
              \<and> TxOut (MsgTx tx')
                   = take j (TxOut (MsgTx tx)) @ drop (Suc j) (TxOut (MsgTx tx))
              \<and> Outputs tx' = take j (Outputs tx) @ drop (Suc j) (Outputs tx))
        \<or> (\<exists>out sup. IsRemainder sup \<and> addedForFee sup
              \<and> TxOut (MsgTx tx') = TxOut (MsgTx tx) @ [out]
              \<and> Outputs tx' = Outputs tx @ [sup]))"
proof -
  have rest: "Inputs tx' = Inputs tx
     \<and> TxIn (MsgTx tx') = TxIn (MsgTx tx)
     \<and> Version (MsgTx tx') = Version (MsgTx tx)
     \<and> LockTime (MsgTx tx') = LockTime (MsgTx tx)
     \<and> ChangeScript tx' = ChangeScript tx
     \<and> ChangeKeyID tx' = ChangeKeyID tx
     \<and> FeeRate tx' = FeeRate tx
     \<and> DustFeeRate tx' = DustFeeRate tx"
    using AdjustFee_shape [OF assms] by (elim disjE exE conjE) simp_all
  from AdjustFee_shape [OF assms] consider
      (same) "tx' = tx"
    | (changed) j v where "j < length (Outputs tx)" "IsRemainder (Outputs tx ! j)"
        "\<forall>k<j. \<not> IsRemainder (Outputs tx ! k)" "j < length (TxOut (MsgTx tx))"
        "tx' = tx\<lparr>MsgTx := (MsgTx tx)\<lparr>TxOut := (TxOut (MsgTx tx))
                 [j := (TxOut (MsgTx tx) ! j)\<lparr>TxOut.Value := v\<rparr>]\<rparr>\<rparr>"
    | (removed) j where "j < length (Outputs tx)" "IsRemainder (Outputs tx ! j)"
        "\<forall>k<j. \<not> IsRemainder (Outputs tx ! k)" "j < length (TxOut (MsgTx tx))"
        "tx' = tx\<lparr>MsgTx := (MsgTx tx)\<lparr>TxOut := take j (TxOut (MsgTx tx))
                   @ drop (Suc j) (TxOut (MsgTx tx))\<rparr>,
                Outputs := take j (Outputs tx) @ drop (Suc j) (Outputs tx)\<rparr>"
    | (added) v where
        "tx' = tx\<lparr>MsgTx := (MsgTx tx)\<lparr>TxOut := TxOut (MsgTx tx)
                   @ [\<lparr>TxOut.Value = v, TxOut.LockingScript = ChangeScript tx\<rparr>]\<rparr>,
                Outputs := Outputs tx
                   @ [\<lparr>IsRemainder = True, IsDust = False, KeyID = ChangeKeyID tx,
                       addedForFee = True\<rparr>]\<rparr>"
    by blast
  then have outs: "(TxOut (MsgTx tx') = TxOut (MsgTx tx) \<and> Outputs tx' = Outputs tx)
        \<or> (\<exists>j v. j < length (Outputs tx) \<and> IsRemainder (Outputs tx ! j)
              \<and> (\<forall>k<j. \<not> IsRemainder (Outputs tx ! k)) \<and> j < length (TxOut (MsgTx tx))
              \<and> TxOut (MsgTx tx')
                   = (TxOut (MsgTx tx))[j := (TxOut (MsgTx tx) ! j)\<lparr>TxOut.Value := v\<rparr>]
              \<and> Outputs tx' = Outputs tx)
        \<or> (\<exists>j. j < length (Outputs tx) \<and> IsRemainder (Outputs tx ! j)
              \<and> (\<forall>k<j. \<not> IsRemainder (Outputs tx ! k)) \<and> j < length (TxOut (MsgTx tx))
              \<and> TxOut (MsgTx tx')
                   = take j (TxOut (MsgTx tx)) @ drop (Suc j) (TxOut (MsgTx tx))
              \<and> Outputs tx' = take j (Outputs tx) @ drop (Suc j) (Outputs tx))
        \<or> (\<exists>out sup. IsRemainder sup \<and> addedForFee sup
              \<and> TxOut (MsgTx tx') = TxOut (MsgTx tx) @ [out]
              \<and> Outputs tx' = Outputs tx @ [sup])"
  proof cases
    case same
    then show ?thesis by simp
  next
    case changed
    from changed(5) have "TxOut (MsgTx tx')
        = (TxOut (MsgTx tx))[j := (TxOut (MsgTx tx) ! j)\<lparr>TxOut.Value := v\<rparr>]"
      and "Outputs tx' = Outputs tx" by simp_all
    with changed(1-4) show ?thesis by blast
  next
    case removed
    from removed(5) have "TxOut (MsgTx tx')
        = take j (TxOut (MsgTx tx)) @ drop (Suc j) (TxOut (MsgTx tx))"
      and "Outputs tx' = take j (Outputs tx) @ drop (Suc j) (Outputs tx)" by simp_all
    with removed(1-4) show ?thesis by blast
  next
    case added
    define sup where "sup = \<lparr>IsRemainder = True, IsDust = False, KeyID = ChangeKeyID tx,
                       addedForFee = True\<rparr>"
    have "IsRemainder sup" "addedForFee sup" by (simp_all add: sup_def)
    moreover from added have "TxOut (MsgTx tx') = TxOut (MsgTx tx)
        @ [\<lparr>TxOut.Value = v, TxOut.LockingScript = ChangeScript tx\<rparr>]"
      and "Outputs tx' = Outputs tx @ [sup]" by (simp_all add: sup_def)
    ultimately show ?thesis by blast
  qed
  from rest outs show ?thesis by blast
qed

lemma sample_add_change:
  "AdjustFee sampleEnv sampleNoChange (- 500) = Some (Return False None (sampleTx 483 True))"
proof -
  have "AdjustFee sampleEnv sampleNoChange (- 500)
      = Some (AdjustFee_addChange sampleEnv sampleNoChange (- 500) 193)"
    using sample_no_remainder(2) sample_neg(3) sample_EstimatedSize
    by (rule AdjustFee_addChange_eq)
  also have "AdjustFee_addChange sampleEnv sampleNoChange (- 500) 193
      = Return False None (sampleTx 483 True)"
    by (simp add: AdjustFee_addChange_def AddOutput_def Let_def sample_env_fields sample_cs
        sample_OutputSize sample_half_fees sample_cost sampleTx_def)
       (simp add: sampleNoChange_def)
  finally show ?thesis .
qed

theorem AdjustFee_frame_witness:
  "AdjustFee sampleEnv sampleNoChange (- 500) = Some (Return False None (sampleTx 483 True))
   \<and> Inputs (sampleTx 483 True) = Inputs sampleNoChange
   \<and> TxIn (MsgTx (sampleTx 483 True)) = TxIn (MsgTx sampleNoChange)
   \<and> (\<exists>out sup. IsRemainder sup \<and> addedForFee sup
        \<and> TxOut (MsgTx (sampleTx 483 True)) = TxOut (MsgTx sampleNoChange) @ [out]
        \<and> Outputs (sampleTx 483 True) = Outputs sampleNoChange @ [sup])"
  using AdjustFee_frame [OF sample_add_change] sample_add_change
  by (simp add: sampleTx_def sampleNoChange_def)

end
